theory Spec2Isabelle
  imports Complex_Main "HOL-Library.Sublist" "HOL-Library.Char_ord" "HOL-Library.List_Lexorder"
    "HOL-Library.Multiset"
begin

section \<open>JavaScript values used by the data-access layer\<close>

text \<open>
  Timestamps are the strings produced by \<^verbatim>\<open>new Date().toISOString()\<close>; the code only
  copies them and reads them back with \<^verbatim>\<open>new Date(s).getTime()\<close>, so a timestamp is
  modelled by the millisecond count that \<^verbatim>\<open>getTime\<close> returns for it. All calls of
  \<^verbatim>\<open>new Date()\<close> inside one operation read the same clock value \<open>now\<close>.
  Identifiers and stock levels are numbers holding integers, prices are exact rationals.
  Strings are lists of 8-bit code units (the Latin-1 range of JavaScript's code units),
  which covers the French product data of the repository.
\<close>

type_synonym timestamp = int

text \<open>
  An optional property of an object passed as an argument (\<^verbatim>\<open>description?: string\<close>):
  the key is absent, present with the value \<^verbatim>\<open>undefined\<close>, or present with a value.
  Reading the property gives \<^verbatim>\<open>undefined\<close> in the first two cases; an object spread
  copies the key in the last two.
\<close>

datatype 'a optional = Absent | Undefined | Value 'a

fun read_optional :: "'a optional \<Rightarrow> 'a option" where
  "read_optional Absent = None"
| "read_optional Undefined = None"
| "read_optional (Value v) = Some v"

text \<open>\<^verbatim>\<open>{...old, ...new}\<close> at one optional key.\<close>

fun spread_optional :: "'a option \<Rightarrow> 'a optional \<Rightarrow> 'a option" where
  "spread_optional old Absent = old"
| "spread_optional old Undefined = None"
| "spread_optional old (Value v) = Some v"

text \<open>
  \<^verbatim>\<open>String.prototype.toLowerCase\<close> on Latin-1 code units: A-Z and the accented capitals
  0xC0-0xDE (without the multiplication sign 0xD7) move up by 32.
\<close>

definition lower_char :: "char \<Rightarrow> char" where
  "lower_char c =
     (let n = (of_char c :: nat) in
      if (65 \<le> n \<and> n \<le> 90) \<or> (192 \<le> n \<and> n \<le> 222 \<and> n \<noteq> 215)
      then char_of (n + 32) else c)"

definition toLowerCase :: "string \<Rightarrow> string" where
  "toLowerCase s = map lower_char s"



text \<open>\<^verbatim>\<open>s.includes(t)\<close>: \<open>t\<close> occurs in \<open>s\<close> as a contiguous run of code units.\<close>

fun str_includes :: "string \<Rightarrow> string \<Rightarrow> bool" where
  "str_includes [] t = (t = [])"
| "str_includes (c # s) t = (prefix t (c # s) \<or> str_includes s t)"

text \<open>
  A JavaScript number is a double: an integer \<open>x\<close> is a number only up to a significand
  of 53 bits, and the result of an arithmetic operator is the exact result rounded to the
  nearest double, ties going to the even significand. \<open>ulp m\<close> is the distance
  between neighbouring doubles around the magnitude \<open>m\<close> (1 below \<open>2 ^ 53\<close>, 2 up to
  \<open>2 ^ 54\<close>, and so on), \<open>to_double\<close> the rounding, and \<open>js_add\<close>, \<open>js_sub\<close>,
  \<open>js_mul\<close> the operators \<^verbatim>\<open>+\<close>, \<^verbatim>\<open>-\<close>, \<^verbatim>\<open>*\<close> on numbers that hold integers.
  Magnitudes stay below \<open>2 ^ 1024\<close>, where a double becomes Infinity.
\<close>

function ulp :: "int \<Rightarrow> int" where
  "ulp m = (if m < 2 ^ 53 then 1 else 2 * ulp (m div 2))"
  by pat_completeness auto
termination
  by (relation "measure nat") auto

declare ulp.simps [simp del]

definition to_double :: "int \<Rightarrow> int" where
  "to_double x =
     (let m = \<bar>x\<bar>;
          u = ulp m;
          q = m div u;
          r = m mod u;
          nearest = (if 2 * r < u \<or> (2 * r = u \<and> even q) then q * u else (q + 1) * u)
      in sgn x * nearest)"

definition js_add :: "int \<Rightarrow> int \<Rightarrow> int" where
  "js_add a b = to_double (a + b)"



text \<open>
  \<^verbatim>\<open>parseInt(s)\<close> without a radix: leading white space is skipped, a sign is read, a
  prefix 0x or 0X selects radix 16, then the longest run of digits is taken; with no digit
  the result is NaN, here \<open>None\<close>, and otherwise the number nearest to the integer the
  digits write.
\<close>

definition is_space :: "char \<Rightarrow> bool" where
  "is_space c = ((of_char c :: nat) \<in> {32, 9, 10, 11, 12, 13, 160})"

definition digit_of :: "nat \<Rightarrow> char \<Rightarrow> nat option" where
  "digit_of radix c =
     (let n = (of_char c :: nat);
          v = (if 48 \<le> n \<and> n \<le> 57 then n - 48
               else if 97 \<le> n \<and> n \<le> 122 then n - 87
               else if 65 \<le> n \<and> n \<le> 90 then n - 55
               else 36)
      in if v < radix then Some v else None)"

fun digits_prefix :: "nat \<Rightarrow> string \<Rightarrow> nat list" where
  "digits_prefix radix [] = []"
| "digits_prefix radix (c # cs) =
     (case digit_of radix c of None \<Rightarrow> [] | Some v \<Rightarrow> v # digits_prefix radix cs)"

definition parseInt :: "string \<Rightarrow> int option" where
  "parseInt s =
     (let t = dropWhile is_space s;
          neg = (case t of [] \<Rightarrow> False | c # _ \<Rightarrow> c = CHR ''-'');
          u = (case t of [] \<Rightarrow> [] | c # r \<Rightarrow> if c = CHR ''-'' \<or> c = CHR ''+'' then r else t);
          hex = (prefix ''0x'' u \<or> prefix ''0X'' u);
          radix = (if hex then 16 else 10);
          ds = digits_prefix radix (if hex then drop 2 u else u)
      in if ds = [] then None
         else Some (to_double
                ((if neg then - 1 else 1) * int (foldl (\<lambda>a d. a * radix + d) 0 ds))))"

text \<open>\<^verbatim>\<open>Math.max(...xs, 0)\<close>; the maximum of numbers is exact.\<close>

definition Math_max0 :: "int list \<Rightarrow> int" where
  "Math_max0 xs = fold max xs 0"

text \<open>\<^verbatim>\<open>xs.findIndex(P)\<close>; \<open>None\<close> is the result -1.\<close>

fun findIndex :: "('a \<Rightarrow> bool) \<Rightarrow> 'a list \<Rightarrow> nat option" where
  "findIndex P [] = None"
| "findIndex P (x # xs) = (if P x then Some 0 else map_option Suc (findIndex P xs))"

text \<open>
  \<^verbatim>\<open>xs.sort(cmp)\<close>: a stable sort (ECMAScript 2019). The comparator returns a number,
  \<open>None\<close> standing for NaN, which the sort reads as 0. An element moves behind another
  only when the comparator is positive. For a comparator that is not a consistent order
  the language leaves the resulting order to the engine; it is a permutation all the same.
\<close>

fun insert_sorted :: "('a \<Rightarrow> 'a \<Rightarrow> int option) \<Rightarrow> 'a \<Rightarrow> 'a list \<Rightarrow> 'a list" where
  "insert_sorted cmp x [] = [x]"
| "insert_sorted cmp x (y # ys) =
     (case cmp x y of
        Some v \<Rightarrow> if 0 < v then y # insert_sorted cmp x ys else x # y # ys
      | None \<Rightarrow> x # y # ys)"

definition Array_sort :: "('a \<Rightarrow> 'a \<Rightarrow> int option) \<Rightarrow> 'a list \<Rightarrow> 'a list" where
  "Array_sort cmp xs = foldr (insert_sorted cmp) xs []"

text \<open>The letters outside ASCII that the repository's sample data uses, as Latin-1 code units.\<close>

definition e_acute :: string where
  "e_acute = [CHR 0xE9]"

definition E_acute :: string where
  "E_acute = [CHR 0xC9]"

definition e_grave :: string where
  "e_grave = [CHR 0xE8]"

definition e_circ :: string where
  "e_circ = [CHR 0xEA]"

definition a_grave :: string where
  "a_grave = [CHR 0xE0]"

definition a_circ :: string where
  "a_circ = [CHR 0xE2]"

definition i_circ :: string where
  "i_circ = [CHR 0xEE]"

definition O_slash :: string where
  "O_slash = [CHR 0xD8]"

definition superscript_two :: string where
  "superscript_two = [CHR 0xB2]"

definition apostrophe :: string where
  "apostrophe = [CHR 0x27]"

section \<open>The data model (src/types/index.ts)\<close>

record category =
  c_id :: int
  c_name :: string
  c_description :: "string option"
  c_created_at :: timestamp

record product =
  p_id :: int
  p_name :: string
  p_description :: "string option"
  p_category_id :: int
  p_category_name :: "string option"
  p_purchase_price :: rat
  p_selling_price :: rat
  p_remaining_stock :: int
  p_min_stock_level :: int
  p_image_url :: "string option"
  p_created_at :: timestamp
  p_updated_at :: timestamp

text \<open>
  The argument of createProduct,
  \<^verbatim>\<open>Omit<Product, 'id' | 'created_at' | 'updated_at' | 'category_name'>\<close>, and of
  updateProduct, which keeps the id.
\<close>

record product_data =
  d_name :: string
  d_description :: "string optional"
  d_category_id :: int
  d_purchase_price :: rat
  d_selling_price :: rat
  d_remaining_stock :: int
  d_min_stock_level :: int
  d_image_url :: "string optional"

record product_update = product_data +
  d_id :: int

text \<open>The objects the operations answer with; an absent key is \<open>None\<close>.\<close>

record categories_reply =
  cr_success :: bool
  cr_categories :: "category list"

record pagination =
  currentPage :: int
  totalPages :: int
  totalItems :: int
  itemsPerPage :: int
  hasNextPage :: bool
  hasPrevPage :: bool

record products_reply =
  pr_success :: bool
  pr_products :: "product list"
  pr_pagination :: "pagination option"

record reply =
  r_success :: bool
  r_id :: "int option"
  r_error :: "string option"
  r_imageUrl :: "string option"
  r_product :: "product option"

definition ok :: reply where
  "ok = \<lparr>r_success = True, r_id = None, r_error = None, r_imageUrl = None, r_product = None\<rparr>"

definition failure :: "string \<Rightarrow> reply" where
  "failure msg =
     \<lparr>r_success = False, r_id = None, r_error = Some msg, r_imageUrl = None, r_product = None\<rparr>"

section \<open>The offline backend (src/services/api-offline.ts)\<close>

text \<open>
  The sample data of the module, as evaluated when the module is loaded at clock value
  \<open>now\<close>.
\<close>

definition sample_categories :: "timestamp \<Rightarrow> category list" where
  "sample_categories now =
     [\<lparr>c_id = 1, c_name = ''Droguerie'',
       c_description = Some (''Produits chimiques, adh'' @ e_acute @ ''sifs, mastics et compos''
          @ e_acute @ ''s sp'' @ e_acute @ ''cialis'' @ e_acute @ ''s''),
       c_created_at = now\<rparr>,
      \<lparr>c_id = 2, c_name = ''Sanitaire'',
       c_description = Some (E_acute @ ''quipements de plomberie, tuyaux, robinets, ''
          @ ''chauffe-eau, accessoires de salle de bain''),
       c_created_at = now\<rparr>,
      \<lparr>c_id = 3, c_name = ''Peinture'',
       c_description = Some (''Peintures, appr'' @ e_circ @ ''ts, pinceaux, rouleaux, ''
          @ ''accessoires et outils de peinture''),
       c_created_at = now\<rparr>,
      \<lparr>c_id = 4, c_name = ''Quincaillerie'',
       c_description = Some (''Fixations, vis, boulons, '' @ e_acute @ ''crous, charni''
          @ e_grave @ ''res, serrures et composants m'' @ e_acute @ ''talliques''),
       c_created_at = now\<rparr>,
      \<lparr>c_id = 5, c_name = ''Outillage'',
       c_description = Some (''Outils '' @ a_grave @ '' main, outils '' @ e_acute
          @ ''lectriques, '' @ e_acute @ ''quipements de mesure et de s'' @ e_acute @ ''curit''
          @ e_acute),
       c_created_at = now\<rparr>,
      \<lparr>c_id = 6, c_name = E_acute @ ''lectricit'' @ e_acute,
       c_description = Some (''Composants '' @ e_acute @ ''lectriques, c'' @ a_circ
          @ ''blage, interrupteurs, prises, luminaires''),
       c_created_at = now\<rparr>]"

definition sample_product ::
  "int \<Rightarrow> string \<Rightarrow> string \<Rightarrow> int \<Rightarrow> rat \<Rightarrow> rat \<Rightarrow> int \<Rightarrow> int \<Rightarrow> string \<Rightarrow> timestamp
     \<Rightarrow> product" where
  "sample_product i name description cid purchase selling stock minimum cname now =
     \<lparr>p_id = i, p_name = name, p_description = Some description, p_category_id = cid,
      p_category_name = Some cname, p_purchase_price = purchase, p_selling_price = selling,
      p_remaining_stock = stock, p_min_stock_level = minimum, p_image_url = None,
      p_created_at = now, p_updated_at = now\<rparr>"

definition sample_products :: "timestamp \<Rightarrow> product list" where
  "sample_products now =
     [sample_product 1 ''Colle PVC forte''
        (''Adh'' @ e_acute @ ''sif haute r'' @ e_acute @ ''sistance pour tuyaux PVC'')
        1 25 35 50 10 ''Droguerie'' now,
      sample_product 2
        (''Mastic d'' @ apostrophe @ e_acute @ ''tanch'' @ e_acute @ ''it'' @ e_acute
           @ '' universel'')
        (''Mastic '' @ e_acute @ ''tanche pour joints et fissures'')
        1 18 28 75 15 ''Droguerie'' now,
      sample_product 3 (''Robinet m'' @ e_acute @ ''langeur chrom'' @ e_acute)
        (''Robinet m'' @ e_acute @ ''langeur pour cuisine et salle de bain'')
        2 150 220 25 5 ''Sanitaire'' now,
      sample_product 4 (''Tube PVC '' @ O_slash @ ''100mm'')
        (''Tuyau PVC 100mm pour '' @ e_acute @ ''vacuation'')
        2 45 65 100 20 ''Sanitaire'' now,
      sample_product 5 ''Peinture murale blanche 10L''
        (''Peinture acrylique blanche pour murs int'' @ e_acute @ ''rieurs'')
        3 180 250 40 10 ''Peinture'' now,
      sample_product 6 ''Rouleau de peinture professionnel'' ''Rouleau pour finitions lisses''
        3 15 25 80 20 ''Peinture'' now,
      sample_product 7 (''Vis '' @ a_grave @ '' bois 4x40mm (bo'' @ i_circ @ ''te 100)'')
        (''Vis pour menuiserie, t'' @ e_circ @ ''te frais'' @ e_acute @ ''e'')
        4 (25 / 2) 18 200 50 ''Quincaillerie'' now,
      sample_product 8 (''Serrure de s'' @ e_acute @ ''curit'' @ e_acute @ '' 3 points'')
        (''Serrure haute s'' @ e_acute @ ''curit'' @ e_acute @ '' avec 3 cl'' @ e_acute @ ''s'')
        4 85 125 15 5 ''Quincaillerie'' now,
      sample_product 9 ''Perceuse visseuse 18V'' ''Perceuse sans fil avec batterie et chargeur''
        5 280 420 12 3 ''Outillage'' now,
      sample_product 10 ''Marteau de charpentier 500g'' ''Marteau avec manche bois''
        5 35 55 25 8 ''Outillage'' now,
      sample_product 11
        (''C'' @ a_circ @ ''ble '' @ e_acute @ ''lectrique 2.5mm'' @ superscript_two
           @ '' (rouleau 100m)'')
        (''C'' @ a_circ @ ''ble pour installations '' @ e_acute @ ''lectriques'')
        6 85 120 20 5 (E_acute @ ''lectricit'' @ e_acute) now,
      sample_product 12 ''Interrupteur simple blanc'' ''Interrupteur mural blanc''
        6 12 18 100 25 (E_acute @ ''lectricit'' @ e_acute) now]"

text \<open>
  What \<^verbatim>\<open>localStorage.getItem(key)\<close> holds for one of the two collections: nothing (null,
  or the empty string, both falsy), text on which \<^verbatim>\<open>JSON.parse\<close> throws, or the
  serialisation of a value of the collection's type. The state of the module is the two
  entries, whether \<^verbatim>\<open>localStorage.setItem\<close> throws (quota exceeded, storage unavailable),
  and the two module-level arrays SAMPLE_PRODUCTS and SAMPLE_CATEGORIES: they are mutable
  objects, and \<^verbatim>\<open>getStoredData\<close> hands out the very array it was given as default.
\<close>

datatype 'a stored = NoItem | Unparsable | Parsed 'a

record offline_world =
  ls_products :: "product list stored"
  ls_categories :: "category list stored"
  setItem_throws :: bool
  SAMPLE_PRODUCTS :: "product list"
  SAMPLE_CATEGORIES :: "category list"

text \<open>
  The module right after its constants are evaluated at clock value \<open>now\<close>, in a browser
  whose storage holds the given entries.
\<close>

definition module_loaded ::
  "timestamp \<Rightarrow> product list stored \<Rightarrow> category list stored \<Rightarrow> bool \<Rightarrow> offline_world" where
  "module_loaded now products categories throws =
     \<lparr>ls_products = products,
      ls_categories = categories,
      setItem_throws = throws,
      SAMPLE_PRODUCTS = sample_products now,
      SAMPLE_CATEGORIES = sample_categories now\<rparr>"

definition getStoredData :: "'a stored \<Rightarrow> 'a \<Rightarrow> 'a" where
  "getStoredData entry defaultValue =
     (case entry of
        NoItem \<Rightarrow> defaultValue
      | Unparsable \<Rightarrow> defaultValue
      | Parsed v \<Rightarrow> v)"

definition setStoredData_products :: "product list \<Rightarrow> offline_world \<Rightarrow> offline_world" where
  "setStoredData_products data w =
     (if setItem_throws w then w else w\<lparr>ls_products := Parsed data\<rparr>)"

definition setStoredData_categories :: "category list \<Rightarrow> offline_world \<Rightarrow> offline_world" where
  "setStoredData_categories data w =
     (if setItem_throws w then w else w\<lparr>ls_categories := Parsed data\<rparr>)"

definition initializeData :: "offline_world \<Rightarrow> offline_world" where
  "initializeData w =
     (let categories = getStoredData (ls_categories w) [];
          products = getStoredData (ls_products w) [];
          w1 = (if length categories = 0
                then setStoredData_categories (SAMPLE_CATEGORIES w) w else w);
          w2 = (if length products = 0
                then setStoredData_products (SAMPLE_PRODUCTS w1) w1 else w1)
      in w2)"

definition offlineApi_getCategories :: "offline_world \<Rightarrow> categories_reply" where
  "offlineApi_getCategories w =
     \<lparr>cr_success = True,
      cr_categories = getStoredData (ls_categories w) (SAMPLE_CATEGORIES w)\<rparr>"

text \<open>\<^verbatim>\<open>categories.find(c => c.id === product.category_id)?.name || 'Unknown'\<close>\<close>

definition category_name_or :: "string \<Rightarrow> category list \<Rightarrow> int \<Rightarrow> string" where
  "category_name_or placeholder categories cid =
     (case find (\<lambda>c. c_id c = cid) categories of
        None \<Rightarrow> placeholder
      | Some c \<Rightarrow> if c_name c = [] then placeholder else c_name c)"

definition matches_search :: "string \<Rightarrow> product \<Rightarrow> bool" where
  "matches_search searchLower product =
     (str_includes (toLowerCase (p_name product)) searchLower \<or>
      (case p_description product of
         None \<Rightarrow> False
       | Some d \<Rightarrow> str_includes (toLowerCase d) searchLower))"

definition matches_category :: "string \<Rightarrow> product \<Rightarrow> bool" where
  "matches_category category product =
     (case parseInt category of None \<Rightarrow> False | Some n \<Rightarrow> p_category_id product = n)"

text \<open>\<^verbatim>\<open>(a, b) => new Date(b.created_at).getTime() - new Date(a.created_at).getTime()\<close>\<close>

definition by_created_desc :: "product \<Rightarrow> product \<Rightarrow> int option" where
  "by_created_desc a b = Some (p_created_at b - p_created_at a)"

definition offlineApi_getProducts :: "string \<Rightarrow> string \<Rightarrow> offline_world \<Rightarrow> products_reply" where
  "offlineApi_getProducts search category w =
     (let stored = getStoredData (ls_products w) (SAMPLE_PRODUCTS w);
          categories = getStoredData (ls_categories w) (SAMPLE_CATEGORIES w);
          named = map (\<lambda>p. p\<lparr>p_category_name :=
                     Some (category_name_or ''Unknown'' categories (p_category_id p))\<rparr>) stored;
          searched = (if search \<noteq> []
                      then filter (matches_search (toLowerCase search)) named else named);
          filtered = (if category \<noteq> ''all''
                      then filter (matches_category category) searched else searched)
      in \<lparr>pr_success = True,
          pr_products = Array_sort by_created_desc filtered,
          pr_pagination = None\<rparr>)"

text \<open>
  The three mutations wrap their bodies in \<^verbatim>\<open>try\<close>; neither getStoredData nor
  setStoredData throws, so their \<^verbatim>\<open>catch\<close> branches ("Failed to create product" and
  the like) are not reached on values of these types and have no counterpart below.
  createProduct reads with SAMPLE_PRODUCTS as default, so with nothing readable in storage
  \<^verbatim>\<open>products.push(newProduct)\<close> appends to the module's own array.
\<close>

definition new_product :: "product_data \<Rightarrow> int \<Rightarrow> timestamp \<Rightarrow> product" where
  "new_product productData newId now =
     \<lparr>p_id = newId,
      p_name = d_name productData,
      p_description = read_optional (d_description productData),
      p_category_id = d_category_id productData,
      p_category_name = Some [],
      p_purchase_price = d_purchase_price productData,
      p_selling_price = d_selling_price productData,
      p_remaining_stock = d_remaining_stock productData,
      p_min_stock_level = d_min_stock_level productData,
      p_image_url = read_optional (d_image_url productData),
      p_created_at = now,
      p_updated_at = now\<rparr>"

definition offlineApi_createProduct ::
  "product_data \<Rightarrow> timestamp \<Rightarrow> offline_world \<Rightarrow> reply \<times> offline_world" where
  "offlineApi_createProduct productData now w =
     (let products = getStoredData (ls_products w) (SAMPLE_PRODUCTS w);
          newId = js_add (Math_max0 (map p_id products)) 1;
          pushed = products @ [new_product productData newId now];
          w1 = (case ls_products w of
                  Parsed _ \<Rightarrow> w
                | NoItem \<Rightarrow> w\<lparr>SAMPLE_PRODUCTS := pushed\<rparr>
                | Unparsable \<Rightarrow> w\<lparr>SAMPLE_PRODUCTS := pushed\<rparr>)
      in (ok\<lparr>r_id := Some newId\<rparr>, setStoredData_products pushed w1))"

text \<open>\<^verbatim>\<open>{...products[index], ...productData, updated_at: new Date().toISOString()}\<close>\<close>

definition spread_update :: "product \<Rightarrow> product_update \<Rightarrow> timestamp \<Rightarrow> product" where
  "spread_update old productData now =
     old\<lparr>p_id := d_id productData,
         p_name := d_name productData,
         p_description := spread_optional (p_description old) (d_description productData),
         p_category_id := d_category_id productData,
         p_purchase_price := d_purchase_price productData,
         p_selling_price := d_selling_price productData,
         p_remaining_stock := d_remaining_stock productData,
         p_min_stock_level := d_min_stock_level productData,
         p_image_url := spread_optional (p_image_url old) (d_image_url productData),
         p_updated_at := now\<rparr>"

definition offlineApi_updateProduct ::
  "product_update \<Rightarrow> timestamp \<Rightarrow> offline_world \<Rightarrow> reply \<times> offline_world" where
  "offlineApi_updateProduct productData now w =
     (let products = getStoredData (ls_products w) [] in
      case findIndex (\<lambda>p. p_id p = d_id productData) products of
        None \<Rightarrow> (failure ''Product not found'', w)
      | Some index \<Rightarrow>
          (ok, setStoredData_products
                 (products[index := spread_update (products ! index) productData now]) w))"

definition offlineApi_deleteProduct :: "int \<Rightarrow> offline_world \<Rightarrow> reply \<times> offline_world" where
  "offlineApi_deleteProduct i w =
     (let products = getStoredData (ls_products w) [];
          filteredProducts = filter (\<lambda>p. p_id p \<noteq> i) products
      in if length products = length filteredProducts
         then (failure ''Product not found'', w)
         else (ok, setStoredData_products filteredProducts w))"

text \<open>
  A file to upload is represented by what \<^verbatim>\<open>FileReader.readAsDataURL\<close> makes of it: the
  data URL, or \<open>None\<close> when the reader reports an error.
\<close>

record upload_file =
  data_url :: "string option"

definition offlineApi_uploadImage :: "upload_file \<Rightarrow> reply" where
  "offlineApi_uploadImage file =
     (case data_url file of
        Some imageUrl \<Rightarrow> ok\<lparr>r_imageUrl := Some imageUrl\<rparr>
      | None \<Rightarrow> failure ''Failed to process image'')"

definition offlineApi_deleteImage :: "string \<Rightarrow> reply" where
  "offlineApi_deleteImage imageUrl = ok"

definition offlineApi_importData ::
  "category list \<Rightarrow> product list \<Rightarrow> offline_world \<Rightarrow> offline_world" where
  "offlineApi_importData categories products w =
     setStoredData_products products (setStoredData_categories categories w)"

definition offlineApi_resetData :: "offline_world \<Rightarrow> offline_world" where
  "offlineApi_resetData w =
     setStoredData_products (SAMPLE_PRODUCTS w)
       (setStoredData_categories (SAMPLE_CATEGORIES w) w)"

section \<open>The data-access facade (the module exporting \<open>api\<close>)\<close>

text \<open>
  Each operation awaits one \<^verbatim>\<open>fetch\<close> and returns \<^verbatim>\<open>response.json()\<close>. The network is
  the argument: the fetch throws (a transport failure), or it resolves with a body that is
  not JSON (the promise returned from inside \<^verbatim>\<open>try\<close> then rejects outside the
  \<^verbatim>\<open>catch\<close>), or it resolves with a body that parses to a reply.
\<close>

datatype 'a fetch = FetchThrows | BadBody | Body 'a

datatype 'a promise = Rejected | Fulfilled 'a

definition api_getCategories ::
  "categories_reply fetch \<Rightarrow> offline_world \<Rightarrow> categories_reply promise" where
  "api_getCategories net w =
     (case net of
        Body r \<Rightarrow> Fulfilled r
      | BadBody \<Rightarrow> Rejected
      | FetchThrows \<Rightarrow> Fulfilled (offlineApi_getCategories w))"

definition api_getProducts ::
  "products_reply fetch \<Rightarrow> string \<Rightarrow> string \<Rightarrow> int \<Rightarrow> int \<Rightarrow> string \<Rightarrow> string \<Rightarrow>
     offline_world \<Rightarrow> products_reply promise" where
  "api_getProducts net search category page limit sortBy sortOrder w =
     (case net of
        Body r \<Rightarrow> Fulfilled r
      | BadBody \<Rightarrow> Rejected
      | FetchThrows \<Rightarrow>
          (let offlineResult = offlineApi_getProducts search category w in
           Fulfilled
             \<lparr>pr_success = pr_success offlineResult,
              pr_products = pr_products offlineResult,
              pr_pagination = Some
                \<lparr>currentPage = page,
                 totalPages = 1,
                 totalItems = int (length (pr_products offlineResult)),
                 itemsPerPage = limit,
                 hasNextPage = False,
                 hasPrevPage = False\<rparr>\<rparr>))"

definition api_getProductById :: "reply fetch \<Rightarrow> int \<Rightarrow> reply promise" where
  "api_getProductById net i =
     (case net of
        Body r \<Rightarrow> Fulfilled r
      | BadBody \<Rightarrow> Rejected
      | FetchThrows \<Rightarrow> Fulfilled (failure ''Backend unavailable''))"

definition api_createProduct ::
  "reply fetch \<Rightarrow> product_data \<Rightarrow> offline_world \<Rightarrow> reply promise \<times> offline_world" where
  "api_createProduct net productData w =
     (case net of
        Body r \<Rightarrow> (Fulfilled r, w)
      | BadBody \<Rightarrow> (Rejected, w)
      | FetchThrows \<Rightarrow>
          (Fulfilled ((failure ''Falling back to offline mode for create product'')
                        \<lparr>r_id := Some 0\<rparr>), w))"

definition api_updateProduct ::
  "reply fetch \<Rightarrow> product_update \<Rightarrow> timestamp \<Rightarrow> offline_world \<Rightarrow>
     reply promise \<times> offline_world" where
  "api_updateProduct net productData now w =
     (case net of
        Body r \<Rightarrow> (Fulfilled r, w)
      | BadBody \<Rightarrow> (Rejected, w)
      | FetchThrows \<Rightarrow>
          (case offlineApi_updateProduct productData now w of (r, w') \<Rightarrow> (Fulfilled r, w')))"

definition api_deleteProduct ::
  "reply fetch \<Rightarrow> int \<Rightarrow> offline_world \<Rightarrow> reply promise \<times> offline_world" where
  "api_deleteProduct net i w =
     (case net of
        Body r \<Rightarrow> (Fulfilled r, w)
      | BadBody \<Rightarrow> (Rejected, w)
      | FetchThrows \<Rightarrow>
          (case offlineApi_deleteProduct i w of (r, w') \<Rightarrow> (Fulfilled r, w')))"

definition api_uploadImage :: "reply fetch \<Rightarrow> upload_file \<Rightarrow> reply promise" where
  "api_uploadImage net file =
     (case net of
        Body r \<Rightarrow> Fulfilled r
      | BadBody \<Rightarrow> Rejected
      | FetchThrows \<Rightarrow> Fulfilled (offlineApi_uploadImage file))"

definition api_deleteImage :: "reply fetch \<Rightarrow> string \<Rightarrow> reply promise" where
  "api_deleteImage net imageUrl =
     (case net of
        Body r \<Rightarrow> Fulfilled r
      | BadBody \<Rightarrow> Rejected
      | FetchThrows \<Rightarrow> Fulfilled (offlineApi_deleteImage imageUrl))"

section \<open>The serverless JSON-file backend\<close>

text \<open>
  The objects kept in products.json. The handler is plain JavaScript: what it stores is the
  request's body with a few keys set, so \<^verbatim>\<open>created_at\<close> can be missing from a stored
  object. Request bodies are taken from the type the facade sends.
\<close>

record jproduct =
  j_id :: int
  j_name :: string
  j_description :: "string option"
  j_category_id :: int
  j_category_name :: "string option"
  j_purchase_price :: rat
  j_selling_price :: rat
  j_remaining_stock :: int
  j_min_stock_level :: int
  j_image_url :: "string option"
  j_created_at :: "timestamp option"
  j_updated_at :: timestamp

text \<open>
  A file of the medium: it does not exist, its text is not JSON, or it is the
  serialisation of a collection. Writing a file succeeds.
\<close>

datatype 'a json_file = Missing | Garbled | Content 'a

record files =
  PRODUCTS_FILE :: "jproduct list json_file"
  CATEGORIES_FILE :: "category list json_file"

text \<open>\<^verbatim>\<open>JSON.parse(await fs.readFile(file, 'utf8'))\<close>; \<open>None\<close> when either call throws.\<close>

definition read_json :: "'a json_file \<Rightarrow> 'a option" where
  "read_json f = (case f of Missing \<Rightarrow> None | Garbled \<Rightarrow> None | Content v \<Rightarrow> Some v)"

definition default_categories :: "timestamp \<Rightarrow> category list" where
  "default_categories now =
     [\<lparr>c_id = 1, c_name = ''Outils'',
       c_description = Some ''Outils de bricolage et construction'', c_created_at = now\<rparr>,
      \<lparr>c_id = 2, c_name = E_acute @ ''lectricit'' @ e_acute,
       c_description = Some (''Mat'' @ e_acute @ ''riel '' @ e_acute @ ''lectrique et ''
                               @ e_acute @ ''clairage''),
       c_created_at = now\<rparr>,
      \<lparr>c_id = 3, c_name = ''Plomberie'',
       c_description = Some (E_acute @ ''quipements de plomberie''), c_created_at = now\<rparr>,
      \<lparr>c_id = 4, c_name = ''Peinture'',
       c_description = Some ''Peintures et accessoires'', c_created_at = now\<rparr>,
      \<lparr>c_id = 5, c_name = ''Jardinage'',
       c_description = Some ''Outils et produits de jardinage'', c_created_at = now\<rparr>]"

definition default_product ::
  "int \<Rightarrow> string \<Rightarrow> string \<Rightarrow> int \<Rightarrow> rat \<Rightarrow> rat \<Rightarrow> int \<Rightarrow> timestamp \<Rightarrow> jproduct" where
  "default_product i name description cid purchase selling stock now =
     \<lparr>j_id = i, j_name = name, j_description = Some description, j_category_id = cid,
      j_category_name = None, j_purchase_price = purchase, j_selling_price = selling,
      j_remaining_stock = stock, j_min_stock_level = 10, j_image_url = None,
      j_created_at = Some now, j_updated_at = now\<rparr>"

definition default_products :: "timestamp \<Rightarrow> jproduct list" where
  "default_products now =
     [default_product 1 ''Marteau 500g''
        (''Marteau '' @ a_grave @ '' panne fendue 500g'') 1 25 35 15 now,
      default_product 2 ''Tournevis cruciforme'' ''Tournevis cruciforme PH2'' 1 8 12 25 now,
      default_product 3 ''Ampoule LED 9W'' ''Ampoule LED E27 9W blanc chaud'' 2 5 (17 / 2) 50 now,
      default_product 4 ''Interrupteur simple'' ''Interrupteur va-et-vient blanc''
        2 (7 / 2) 6 30 now,
      default_product 5 (''Robinet m'' @ e_acute @ ''langeur'')
        (''Robinet m'' @ e_acute @ ''langeur cuisine chrom'' @ e_acute) 3 45 75 8 now,
      default_product 6 ''Peinture blanc mat'' ''Peinture acrylique blanc mat 2.5L''
        4 18 28 12 now,
      default_product 7 (''S'' @ e_acute @ ''cateur'')
        (''S'' @ e_acute @ ''cateur lames franches 20cm'') 5 15 22 6 now]"

definition json_initializeData :: "timestamp \<Rightarrow> files \<Rightarrow> files" where
  "json_initializeData now fs =
     (let fs1 = (if CATEGORIES_FILE fs = Missing
                 then fs\<lparr>CATEGORIES_FILE := Content (default_categories now)\<rparr> else fs);
          fs2 = (if PRODUCTS_FILE fs1 = Missing
                 then fs1\<lparr>PRODUCTS_FILE := Content (default_products now)\<rparr> else fs1)
      in fs2)"

definition json_getCategories :: "files \<Rightarrow> category list option" where
  "json_getCategories fs = read_json (CATEGORIES_FILE fs)"

definition json_matches_search :: "string \<Rightarrow> jproduct \<Rightarrow> bool" where
  "json_matches_search search p =
     (str_includes (toLowerCase (j_name p)) (toLowerCase search) \<or>
      (case j_description p of
         None \<Rightarrow> False
       | Some d \<Rightarrow> d \<noteq> [] \<and> str_includes (toLowerCase d) (toLowerCase search)))"

definition json_matches_category :: "string \<Rightarrow> jproduct \<Rightarrow> bool" where
  "json_matches_category category p =
     (case parseInt category of None \<Rightarrow> False | Some n \<Rightarrow> j_category_id p = n)"

text \<open>\<^verbatim>\<open>(a, b) => new Date(b.created_at) - new Date(a.created_at)\<close>: NaN when a date is missing.\<close>

definition json_by_created_desc :: "jproduct \<Rightarrow> jproduct \<Rightarrow> int option" where
  "json_by_created_desc a b =
     (case (j_created_at b, j_created_at a) of
        (Some tb, Some ta) \<Rightarrow> Some (tb - ta)
      | _ \<Rightarrow> None)"

definition json_getProducts :: "string \<Rightarrow> string \<Rightarrow> files \<Rightarrow> jproduct list option" where
  "json_getProducts search category fs =
     (case read_json (PRODUCTS_FILE fs) of
        None \<Rightarrow> None
      | Some products \<Rightarrow>
         (case json_getCategories fs of
            None \<Rightarrow> None
          | Some categories \<Rightarrow>
             (let named = map (\<lambda>p. p\<lparr>j_category_name :=
                       Some (category_name_or ''Aucune'' categories (j_category_id p))\<rparr>) products;
                  searched = (if search \<noteq> []
                              then filter (json_matches_search search) named else named);
                  filtered = (if category \<noteq> ''all''
                              then filter (json_matches_category category) searched
                              else searched)
              in Some (Array_sort json_by_created_desc filtered))))"

text \<open>
  A request, after the handler's routing on the last path segment and the method, with
  the query parameters or the parsed body the branch reads (\<open>None\<close>: the parameter is
  missing, or \<^verbatim>\<open>JSON.parse(body)\<close> throws).
\<close>

datatype request =
    OPTIONS
  | GET_categories
  | GET_products "string option" "string option"
  | POST_products "product_data option"
  | PUT_products "product_update option"
  | DELETE_products "string option"
  | Other_route

record jproducts_reply =
  jr_success :: bool
  jr_products :: "jproduct list"

datatype json_body =
    No_body
  | Categories_body categories_reply
  | Products_body jproducts_reply
  | Reply_body reply

record http_response =
  statusCode :: int
  res_body :: json_body

text \<open>The answer of the handler's \<^verbatim>\<open>catch\<close>, with the message of the error caught.\<close>

definition error_500 :: "string \<Rightarrow> http_response" where
  "error_500 message = \<lparr>statusCode = 500, res_body = Reply_body (failure message)\<rparr>"

definition ok_200 :: "reply \<Rightarrow> http_response" where
  "ok_200 r = \<lparr>statusCode = 200, res_body = Reply_body r\<rparr>"

text \<open>\<^verbatim>\<open>{...productData, id: newId, created_at: now, updated_at: now}\<close>\<close>

definition post_product :: "product_data \<Rightarrow> int \<Rightarrow> timestamp \<Rightarrow> jproduct" where
  "post_product productData newId now =
     \<lparr>j_id = newId,
      j_name = d_name productData,
      j_description = read_optional (d_description productData),
      j_category_id = d_category_id productData,
      j_category_name = None,
      j_purchase_price = d_purchase_price productData,
      j_selling_price = d_selling_price productData,
      j_remaining_stock = d_remaining_stock productData,
      j_min_stock_level = d_min_stock_level productData,
      j_image_url = read_optional (d_image_url productData),
      j_created_at = Some now,
      j_updated_at = now\<rparr>"

text \<open>\<^verbatim>\<open>{...productData, updated_at: now}\<close>\<close>

definition put_product :: "product_update \<Rightarrow> timestamp \<Rightarrow> jproduct" where
  "put_product productData now =
     \<lparr>j_id = d_id productData,
      j_name = d_name productData,
      j_description = read_optional (d_description productData),
      j_category_id = d_category_id productData,
      j_category_name = None,
      j_purchase_price = d_purchase_price productData,
      j_selling_price = d_selling_price productData,
      j_remaining_stock = d_remaining_stock productData,
      j_min_stock_level = d_min_stock_level productData,
      j_image_url = read_optional (d_image_url productData),
      j_created_at = None,
      j_updated_at = now\<rparr>"

definition saveProducts :: "jproduct list \<Rightarrow> files \<Rightarrow> files" where
  "saveProducts products fs = fs\<lparr>PRODUCTS_FILE := Content products\<rparr>"

text \<open>
  The handler; \<open>message\<close> is the text of the error the engine throws where it throws one.
\<close>

definition handler :: "string \<Rightarrow> timestamp \<Rightarrow> request \<Rightarrow> files \<Rightarrow> http_response \<times> files" where
  "handler message now req fs0 =
     (let fs = json_initializeData now fs0 in
      case req of
        OPTIONS \<Rightarrow> (\<lparr>statusCode = 200, res_body = No_body\<rparr>, fs)
      | GET_categories \<Rightarrow>
          (case json_getCategories fs of
             None \<Rightarrow> (error_500 message, fs)
           | Some categories \<Rightarrow>
               (\<lparr>statusCode = 200,
                 res_body = Categories_body
                   \<lparr>cr_success = True, cr_categories = categories\<rparr>\<rparr>, fs))
      | GET_products qsearch qcategory \<Rightarrow>
          (let search = (case qsearch of None \<Rightarrow> [] | Some s \<Rightarrow> s);
               category = (case qcategory of
                             None \<Rightarrow> ''all''
                           | Some c \<Rightarrow> if c = [] then ''all'' else c)
           in case json_getProducts search category fs of
                None \<Rightarrow> (error_500 message, fs)
              | Some products \<Rightarrow>
                  (\<lparr>statusCode = 200,
                    res_body = Products_body
                      \<lparr>jr_success = True, jr_products = products\<rparr>\<rparr>, fs))
      | POST_products parsed \<Rightarrow>
          (case parsed of
             None \<Rightarrow> (error_500 message, fs)
           | Some productData \<Rightarrow>
              (case read_json (PRODUCTS_FILE fs) of
                 None \<Rightarrow> (error_500 message, fs)
               | Some products \<Rightarrow>
                  (let newId = js_add (Math_max0 (map j_id products)) 1;
                       newProduct = post_product productData newId now
                   in (ok_200 (ok\<lparr>r_id := Some newId\<rparr>),
                       saveProducts (products @ [newProduct]) fs))))
      | PUT_products parsed \<Rightarrow>
          (case parsed of
             None \<Rightarrow> (error_500 message, fs)
           | Some productData \<Rightarrow>
              (case read_json (PRODUCTS_FILE fs) of
                 None \<Rightarrow> (error_500 message, fs)
               | Some products \<Rightarrow>
                  (case findIndex (\<lambda>p. j_id p = d_id productData) products of
                     Some index \<Rightarrow>
                       (ok_200 ok,
                        saveProducts (products[index := put_product productData now]) fs)
                   | None \<Rightarrow> (ok_200 ok, fs))))
      | DELETE_products qid \<Rightarrow>
          (let i = (case qid of None \<Rightarrow> None | Some s \<Rightarrow> parseInt s) in
           case read_json (PRODUCTS_FILE fs) of
             None \<Rightarrow> (error_500 message, fs)
           | Some products \<Rightarrow>
               (ok_200 ok, saveProducts (filter (\<lambda>p. Some (j_id p) \<noteq> i) products) fs))
      | Other_route \<Rightarrow>
          (\<lparr>statusCode = 404, res_body = Reply_body (failure ''Endpoint not found'')\<rparr>, fs))"

section \<open>The Express backend: the search condition of GET /api/products\<close>

text \<open>
  With a non-empty \<^verbatim>\<open>search\<close> the handler appends
  \<^verbatim>\<open>AND (p.name LIKE ? OR p.description LIKE ?)\<close> to both queries and binds each
  parameter to \<^verbatim>\<open>`%${search}%`\<close>. LIKE reads its pattern as SQL does: a percent sign
  stands for any run of characters, an underscore for any one character, a backslash
  takes the next character literally; the tables' collation (utf8mb4_unicode_ci) compares
  letters without regard to case. A NULL description makes its LIKE unknown, which does
  not select the row.
\<close>

fun sql_like :: "string \<Rightarrow> string \<Rightarrow> bool" where
  "sql_like [] s = (s = [])"
| "sql_like (c # p) [] = (c = CHR ''%'' \<and> sql_like p [])"
| "sql_like (c # p) (x # s) =
     (if c = CHR ''%'' then sql_like p (x # s) \<or> sql_like (c # p) s
      else if c = CHR ''_'' then sql_like p s
      else if c = CHR 0x5C \<and> p \<noteq> [] then lower_char (hd p) = lower_char x \<and> sql_like (tl p) s
      else lower_char c = lower_char x \<and> sql_like p s)"

definition express_search_condition :: "string \<Rightarrow> product \<Rightarrow> bool" where
  "express_search_condition search p =
     (let pattern = ''%'' @ search @ ''%'' in
      sql_like pattern (p_name p) \<or>
      (case p_description p of None \<Rightarrow> False | Some d \<Rightarrow> sql_like pattern d))"

section \<open>The Express backend: the order and the page of GET /api/products\<close>







section \<open>Notions used in the statements\<close>

definition products_of :: "products_reply promise \<Rightarrow> product list" where
  "products_of answer = (case answer of Fulfilled r \<Rightarrow> pr_products r | Rejected \<Rightarrow> [])"

text \<open>What an offline listing holds before \<^verbatim>\<open>products.sort\<close> runs.\<close>

definition visible_products :: "string \<Rightarrow> string \<Rightarrow> offline_world \<Rightarrow> product list" where
  "visible_products search category w =
     (let stored = getStoredData (ls_products w) (SAMPLE_PRODUCTS w);
          categories = getStoredData (ls_categories w) (SAMPLE_CATEGORIES w);
          named = map (\<lambda>p. p\<lparr>p_category_name :=
                     Some (category_name_or ''Unknown'' categories (p_category_id p))\<rparr>) stored;
          searched = (if search \<noteq> []
                      then filter (matches_search (toLowerCase search)) named else named)
      in if category \<noteq> ''all''
         then filter (matches_category category) searched else searched)"



text \<open>
  The products of a store that are live: the collection its listing and its create
  operation read.
\<close>

definition live_products :: "offline_world \<Rightarrow> product list" where
  "live_products w = getStoredData (ls_products w) (SAMPLE_PRODUCTS w)"

definition json_live :: "files \<Rightarrow> jproduct list" where
  "json_live fs = (case PRODUCTS_FILE fs of Content ps \<Rightarrow> ps | Missing \<Rightarrow> [] | Garbled \<Rightarrow> [])"

text \<open>
  Sequences of create and delete operations. An offline operation carries whether
  \<^verbatim>\<open>localStorage.setItem\<close> throws while it runs; a request to the handler carries its
  clock value.
\<close>

datatype store_op = Create product_data timestamp bool | Delete int bool

fun apply_op :: "store_op \<Rightarrow> offline_world \<Rightarrow> offline_world" where
  "apply_op (Create productData now throws) w =
     snd (offlineApi_createProduct productData now (w\<lparr>setItem_throws := throws\<rparr>))"
| "apply_op (Delete i throws) w =
     snd (offlineApi_deleteProduct i (w\<lparr>setItem_throws := throws\<rparr>))"

definition run_ops :: "store_op list \<Rightarrow> offline_world \<Rightarrow> offline_world" where
  "run_ops ops w = fold apply_op ops w"

fun creates :: "store_op list \<Rightarrow> int" where
  "creates [] = 0"
| "creates (Create productData now throws # ops) = 1 + creates ops"
| "creates (Delete i throws # ops) = creates ops"

datatype json_op = Post product_data timestamp | Remove string timestamp

fun apply_json_op :: "string \<Rightarrow> json_op \<Rightarrow> files \<Rightarrow> files" where
  "apply_json_op message (Post productData now) fs =
     snd (handler message now (POST_products (Some productData)) fs)"
| "apply_json_op message (Remove i now) fs =
     snd (handler message now (DELETE_products (Some i)) fs)"

definition run_json_ops :: "string \<Rightarrow> json_op list \<Rightarrow> files \<Rightarrow> files" where
  "run_json_ops message ops fs = fold (apply_json_op message) ops fs"

fun json_creates :: "json_op list \<Rightarrow> int" where
  "json_creates [] = 0"
| "json_creates (Post productData now # ops) = 1 + json_creates ops"
| "json_creates (Remove i now # ops) = json_creates ops"

text \<open>
  The words of the specification on searching: \<open>S\<close> occurs in \<open>T\<close> without regard to
  case when some contiguous part of \<open>T\<close> equals \<open>S\<close> up to the case of its letters.
\<close>

definition occurs_ci :: "string \<Rightarrow> string \<Rightarrow> bool" where
  "occurs_ci S T = (\<exists>pre mid post. T = pre @ mid @ post \<and> toLowerCase mid = toLowerCase S)"

definition product_mentions :: "string \<Rightarrow> product \<Rightarrow> bool" where
  "product_mentions S P =
     (occurs_ci S (p_name P) \<or>
      (case p_description P of None \<Rightarrow> False | Some d \<Rightarrow> occurs_ci S d))"

definition jproduct_mentions :: "string \<Rightarrow> jproduct \<Rightarrow> bool" where
  "jproduct_mentions S P =
     (occurs_ci S (j_name P) \<or>
      (case j_description P of None \<Rightarrow> False | Some d \<Rightarrow> occurs_ci S d))"







section \<open>Example states\<close>

definition hammer :: product_data where
  "hammer =
     \<lparr>d_name = ''Marteau de charpentier 500g'',
      d_description = Value ''Marteau avec manche bois'',
      d_category_id = 5, d_purchase_price = 35, d_selling_price = 55,
      d_remaining_stock = 25, d_min_stock_level = 8, d_image_url = Absent\<rparr>"

definition drill :: product_data where
  "drill =
     \<lparr>d_name = ''Perceuse visseuse 18V'',
      d_description = Value ''Perceuse sans fil avec batterie et chargeur'',
      d_category_id = 5, d_purchase_price = 280, d_selling_price = 420,
      d_remaining_stock = 12, d_min_stock_level = 3, d_image_url = Absent\<rparr>"

definition tools :: category where
  "tools =
     \<lparr>c_id = 5, c_name = ''Outillage'',
      c_description = Some ''Outils et equipements'', c_created_at = 100\<rparr>"

text \<open>
  The module loaded at time 50 on a store holding the hammer (id 1, created at 100) and the
  drill (id 2, created at 200).
\<close>

definition shop :: offline_world where
  "shop =
     module_loaded 50 (Parsed [new_product hammer 1 100, new_product drill 2 200])
       (Parsed [tools]) False"


text \<open>The module loaded at time 50 in a browser whose storage holds nothing and refuses every write.\<close>

definition unavailable_storage :: offline_world where
  "unavailable_storage = module_loaded 50 NoItem NoItem True"

text \<open>The same store when local storage refuses every write.\<close>

definition full_shop :: offline_world where
  "full_shop =
     module_loaded 50 (Parsed [new_product hammer 1 100, new_product drill 2 200])
       (Parsed [tools]) True"

text \<open>
  The module loaded at time 50, with both storage entries overwritten since by text that is
  not JSON.
\<close>

definition unreadable_storage :: offline_world where
  "unreadable_storage = module_loaded 50 Unparsable Unparsable False"

text \<open>
  The module loaded at time 50 on a store whose one product carries the id \<open>2 ^ 53\<close>, as
  a backup restored with \<^verbatim>\<open>importData\<close> can leave it.
\<close>

definition big_shop :: offline_world where
  "big_shop =
     module_loaded 50 (Parsed [new_product hammer 9007199254740992 100]) (Parsed [tools]) False"

text \<open>An update of the hammer, and the same update addressed to an id no product has.\<close>

definition hammer_update :: product_update where
  "hammer_update =
     \<lparr>d_name = ''Marteau 750g'',
      d_description = Value ''Marteau lourd'',
      d_category_id = 1, d_purchase_price = 30, d_selling_price = 45,
      d_remaining_stock = 9, d_min_stock_level = 4, d_image_url = Absent, d_id = 1\<rparr>"

definition ghost_update :: product_update where
  "ghost_update = hammer_update\<lparr>d_id := 99\<rparr>"

text \<open>The JSON-file medium as the first request at time 100 seeds it, and a damaged one.\<close>

definition seeded_files :: files where
  "seeded_files =
     \<lparr>PRODUCTS_FILE = Content (default_products 100),
      CATEGORIES_FILE = Content (default_categories 100)\<rparr>"

definition damaged_files :: files where
  "damaged_files =
     \<lparr>PRODUCTS_FILE = Content (default_products 100), CATEGORIES_FILE = Garbled\<rparr>"

section \<open>Facts about the JavaScript library functions\<close>

lemma Math_max0_ge: "x \<in> set xs \<Longrightarrow> x \<le> Math_max0 xs"
proof -
  have "fold max xs a = Max (set (a # xs))" for a :: int
    using Max.set_eq_fold [of a xs] by simp
  then show "x \<in> set xs \<Longrightarrow> x \<le> Math_max0 xs"
    by (simp add: Math_max0_def)
qed

lemma Math_max0_Max: "Math_max0 xs = Max (insert 0 (set xs))"
  using Max.set_eq_fold [of 0 xs] by (simp add: Math_max0_def)

lemma Math_max0_nonneg: "0 \<le> Math_max0 xs"
  by (simp add: Math_max0_Max)

lemma Math_max0_mono: "set xs \<subseteq> set ys \<Longrightarrow> Math_max0 xs \<le> Math_max0 ys"
  unfolding Math_max0_Max by (rule Max_mono) auto

lemma Math_max0_snoc: "Math_max0 (xs @ [a]) = max (Math_max0 xs) a"
  by (simp add: Math_max0_def)

lemma ulp_small: "m < 2 ^ 53 \<Longrightarrow> ulp m = 1"
  by (subst ulp.simps) simp

lemma ulp_large: "2 ^ 53 \<le> m \<Longrightarrow> ulp m = 2 * ulp (m div 2)"
  by (subst ulp.simps) simp

lemma to_double_small: "\<bar>x\<bar> < 2 ^ 53 \<Longrightarrow> to_double x = x"
  by (simp add: to_double_def ulp_small Let_def sgn_if)

lemma to_double_2_53: "to_double 9007199254740992 = 9007199254740992"
  by (simp add: to_double_def ulp_small ulp_large Let_def)

lemma js_add_exact: "0 \<le> a \<Longrightarrow> a < 2 ^ 53 \<Longrightarrow> js_add a 1 = a + 1"
proof -
  assume "0 \<le> a" "a < 2 ^ 53"
  then consider "a + 1 < 2 ^ 53" | "a + 1 = 2 ^ 53" by force
  then show ?thesis
  proof cases
    case 1
    with \<open>0 \<le> a\<close> have "\<bar>a + 1\<bar> < 2 ^ 53" by simp
    then show ?thesis by (simp add: js_add_def to_double_small)
  next
    case 2
    then have "a + 1 = 9007199254740992" by simp
    then show ?thesis by (simp add: js_add_def to_double_2_53)
  qed
qed

lemma js_add_small: "\<bar>a + b\<bar> < 2 ^ 53 \<Longrightarrow> js_add a b = a + b"
  by (simp add: js_add_def to_double_small)

lemma next_id_exact: "Math_max0 xs < 2 ^ 53 \<Longrightarrow> js_add (Math_max0 xs) 1 = Math_max0 xs + 1"
  by (rule js_add_exact [OF Math_max0_nonneg])

lemma next_id_fresh: "Math_max0 xs < 2 ^ 53 \<Longrightarrow> js_add (Math_max0 xs) 1 \<notin> set xs"
  using Math_max0_ge [of "Math_max0 xs + 1" xs] by (auto simp: next_id_exact)



lemma mset_insert_sorted: "mset (insert_sorted cmp x ys) = add_mset x (mset ys)"
  by (induction ys) (auto split: option.splits)

lemma mset_Array_sort: "mset (Array_sort cmp xs) = mset xs"
  unfolding Array_sort_def by (induction xs) (simp_all add: mset_insert_sorted)

lemma findIndex_Some:
  "findIndex P xs = Some i \<Longrightarrow> i < length xs \<and> P (xs ! i)"
  by (induction xs arbitrary: i) (auto split: if_splits)

lemma findIndex_None: "findIndex P xs = None \<longleftrightarrow> (\<forall>x \<in> set xs. \<not> P x)"
  by (induction xs) auto

lemma str_includes_iff: "str_includes s t \<longleftrightarrow> (\<exists>pre post. s = pre @ t @ post)"
proof (induction s)
  case Nil
  then show ?case by auto
next
  case (Cons c s)
  show ?case
  proof
    assume "str_includes (c # s) t"
    then consider "prefix t (c # s)" | "str_includes s t" by auto
    then show "\<exists>pre post. c # s = pre @ t @ post"
    proof cases
      case 1
      then obtain post where "c # s = t @ post" by (auto simp: prefix_def)
      then have "c # s = [] @ t @ post" by simp
      then show ?thesis by blast
    next
      case 2
      with Cons obtain pre post where "s = pre @ t @ post" by blast
      then have "c # s = (c # pre) @ t @ post" by simp
      then show ?thesis by blast
    qed
  next
    assume "\<exists>pre post. c # s = pre @ t @ post"
    then obtain pre post where eq: "c # s = pre @ t @ post" by blast
    show "str_includes (c # s) t"
    proof (cases pre)
      case Nil
      with eq have "prefix t (c # s)" by (simp add: prefix_def)
      then show ?thesis by simp
    next
      case (Cons a pre')
      with eq have "s = pre' @ t @ post" by simp
      with Cons.IH show ?thesis by auto
    qed
  qed
qed

lemma occurs_ci_iff: "occurs_ci S T \<longleftrightarrow> str_includes (toLowerCase T) (toLowerCase S)"
proof
  assume "occurs_ci S T"
  then obtain pre mid post where "T = pre @ mid @ post" "toLowerCase mid = toLowerCase S"
    by (auto simp: occurs_ci_def)
  then have "toLowerCase T = toLowerCase pre @ toLowerCase S @ toLowerCase post"
    by (simp add: toLowerCase_def)
  then show "str_includes (toLowerCase T) (toLowerCase S)"
    unfolding str_includes_iff by blast
next
  assume "str_includes (toLowerCase T) (toLowerCase S)"
  then obtain a b where "map lower_char T = a @ map lower_char S @ b"
    unfolding str_includes_iff toLowerCase_def by blast
  then obtain pre rest where T: "T = pre @ rest"
    and r: "map lower_char S @ b = map lower_char rest"
    unfolding map_eq_append_conv by blast
  from r obtain mid post where "rest = mid @ post" "map lower_char mid = map lower_char S"
    unfolding append_eq_map_conv by metis
  with T show "occurs_ci S T"
    unfolding occurs_ci_def toLowerCase_def by blast
qed

section \<open>Fail-over of the facade\<close>

lemma facade_falls_back:
  "api_getCategories FetchThrows w = Fulfilled (offlineApi_getCategories w)"
  "products_of (api_getProducts FetchThrows search category page limit sortBy sortOrder w) =
     pr_products (offlineApi_getProducts search category w)"
  "api_updateProduct FetchThrows u now w =
     (Fulfilled (fst (offlineApi_updateProduct u now w)), snd (offlineApi_updateProduct u now w))"
  "api_deleteProduct FetchThrows i w =
     (Fulfilled (fst (offlineApi_deleteProduct i w)), snd (offlineApi_deleteProduct i w))"
  "api_uploadImage FetchThrows file = Fulfilled (offlineApi_uploadImage file)"
  "api_deleteImage FetchThrows imageUrl = Fulfilled (offlineApi_deleteImage imageUrl)"
  "api_getProductById FetchThrows i = Fulfilled (failure ''Backend unavailable'')"
  by (simp_all add: api_getCategories_def api_getProducts_def api_updateProduct_def
      api_deleteProduct_def api_uploadImage_def api_deleteImage_def api_getProductById_def
      products_of_def Let_def split: prod.splits)

text \<open>
  C1. Every facade operation with an offline equivalent should answer with the offline
  result when its fetch throws, and getProductById with a failure. The lemma above shows
  it for six operations and for getProductById. createProduct is the exception: on the
  store \<open>shop\<close> its catch branch answers \<^verbatim>\<open>{success: false, id: 0}\<close> with the message
  "Falling back to offline mode for create product" and leaves the store as it is, where
  \<^verbatim>\<open>offlineApi.createProduct\<close> would have stored the product and answered with id 3.
\<close>

theorem createProduct_does_not_fall_back:
  "api_createProduct FetchThrows drill shop =
     (Fulfilled
        \<lparr>r_success = False, r_id = Some 0,
         r_error = Some ''Falling back to offline mode for create product'',
         r_imageUrl = None, r_product = None\<rparr>,
      shop)
   \<and> offlineApi_createProduct drill 300 shop =
     (\<lparr>r_success = True, r_id = Some 3, r_error = None, r_imageUrl = None, r_product = None\<rparr>,
      shop\<lparr>ls_products :=
        Parsed [new_product hammer 1 100, new_product drill 2 200, new_product drill 3 300]\<rparr>)"
  by (simp add: api_createProduct_def failure_def ok_def offlineApi_createProduct_def shop_def
      module_loaded_def getStoredData_def setStoredData_products_def Math_max0_def
      js_add_small new_product_def Let_def)

section \<open>Updating a product that does not exist\<close>

text \<open>
  C2. An update whose id matches no product should reach the caller as a failure. The
  JSON-file handler answers the update of id 99 on the seeded medium with status 200 and
  \<^verbatim>\<open>{success: true}\<close>, changing nothing; the facade hands a parsed reply on as it is; the
  offline backend answers the same update with "Product not found".
\<close>

theorem update_of_unknown_id_reports_success:
  "handler message 300 (PUT_products (Some ghost_update)) seeded_files =
     (\<lparr>statusCode = 200,
       res_body = Reply_body
         \<lparr>r_success = True, r_id = None, r_error = None, r_imageUrl = None,
          r_product = None\<rparr>\<rparr>,
      seeded_files)
   \<and> api_updateProduct
       (Body \<lparr>r_success = True, r_id = None, r_error = None, r_imageUrl = None,
              r_product = None\<rparr>) ghost_update 300 shop =
     (Fulfilled \<lparr>r_success = True, r_id = None, r_error = None, r_imageUrl = None,
                 r_product = None\<rparr>, shop)
   \<and> fst (offlineApi_updateProduct ghost_update 300 shop) =
     \<lparr>r_success = False, r_id = None, r_error = Some ''Product not found'', r_imageUrl = None,
      r_product = None\<rparr>"
  by (simp add: handler_def json_initializeData_def seeded_files_def read_json_def
      ghost_update_def hammer_update_def default_products_def default_product_def ok_200_def
      ok_def failure_def api_updateProduct_def offlineApi_updateProduct_def shop_def
      module_loaded_def getStoredData_def new_product_def Let_def)

section \<open>What an update keeps\<close>

lemma offline_update_replaces_fields:
  assumes "ls_products w = Parsed xs" and "findIndex (\<lambda>p. p_id p = d_id u) xs = Some i"
    and "\<not> setItem_throws w"
  shows "fst (offlineApi_updateProduct u now w) = ok"
    and "live_products (snd (offlineApi_updateProduct u now w)) =
           xs[i := spread_update (xs ! i) u now]"
    and "p_id (spread_update (xs ! i) u now) = p_id (xs ! i)"
    and "p_created_at (spread_update (xs ! i) u now) = p_created_at (xs ! i)"
    and "p_updated_at (spread_update (xs ! i) u now) = now"
    and "p_name (spread_update (xs ! i) u now) = d_name u"
  using assms findIndex_Some [OF assms(2)]
  by (simp_all add: offlineApi_updateProduct_def getStoredData_def setStoredData_products_def
      live_products_def spread_update_def)

text \<open>
  C3. An update should leave \<^verbatim>\<open>created_at\<close> and the id as they are. The offline backend
  does (lemma above, and the last conjunct below). The JSON-file handler stores
  \<^verbatim>\<open>{...productData, updated_at}\<close> without the fields of the stored product: after the
  update of product 1 on the seeded medium, which is answered with success, the stored
  product has no \<^verbatim>\<open>created_at\<close> any more.
\<close>

theorem json_update_drops_created_at:
  "map j_created_at (json_live seeded_files) =
     [Some 100, Some 100, Some 100, Some 100, Some 100, Some 100, Some 100]
   \<and> fst (handler message 300 (PUT_products (Some hammer_update)) seeded_files) =
       \<lparr>statusCode = 200,
        res_body = Reply_body
          \<lparr>r_success = True, r_id = None, r_error = None, r_imageUrl = None,
           r_product = None\<rparr>\<rparr>
   \<and> map j_created_at
        (json_live (snd (handler message 300 (PUT_products (Some hammer_update)) seeded_files))) =
     [None, Some 100, Some 100, Some 100, Some 100, Some 100, Some 100]
   \<and> map p_created_at (live_products (snd (offlineApi_updateProduct hammer_update 300 shop))) =
     [100, 200]"
  by (simp add: handler_def json_initializeData_def seeded_files_def read_json_def json_live_def
      hammer_update_def default_products_def default_product_def ok_200_def saveProducts_def
      put_product_def ok_def offlineApi_updateProduct_def shop_def module_loaded_def
      live_products_def getStoredData_def setStoredData_products_def new_product_def
      spread_update_def Let_def)

section \<open>The order of a listing\<close>

lemma offline_listing_eq:
  "pr_products (offlineApi_getProducts search category w) =
     Array_sort by_created_desc (visible_products search category w)"
  by (simp add: offlineApi_getProducts_def visible_products_def Let_def)
















section \<open>Searching\<close>

lemma matches_search_iff:
  "matches_search (toLowerCase S) P \<longleftrightarrow> product_mentions S P"
  by (simp add: matches_search_def product_mentions_def occurs_ci_iff split: option.splits)

lemma json_matches_search_iff:
  assumes "S \<noteq> []"
  shows "json_matches_search S P \<longleftrightarrow> jproduct_mentions S P"
proof -
  have "\<not> str_includes (toLowerCase []) (toLowerCase S)"
    using assms by (simp add: toLowerCase_def)
  then show ?thesis
    by (auto simp: json_matches_search_def jproduct_mentions_def occurs_ci_iff
        split: option.splits)
qed

lemma offline_search_correct:
  "S \<noteq> [] \<Longrightarrow>
     mset (pr_products (offlineApi_getProducts S ''all'' w)) =
       filter_mset (product_mentions S) (mset (visible_products [] ''all'' w))"
  "mset (pr_products (offlineApi_getProducts [] ''all'' w)) =
     mset (visible_products [] ''all'' w)"
  by (simp_all add: offline_listing_eq mset_Array_sort visible_products_def Let_def
      matches_search_iff [abs_def])

lemma json_search_correct:
  assumes "read_json (PRODUCTS_FILE fs) = Some ps" and "json_getCategories fs = Some cs"
    and "S \<noteq> []"
  shows "mset (the (json_getProducts S ''all'' fs)) =
       filter_mset (jproduct_mentions S) (mset (the (json_getProducts [] ''all'' fs)))"
proof -
  have "json_matches_search S = jproduct_mentions S"
    using json_matches_search_iff [OF assms(3)] by (intro ext)
  with assms show ?thesis
    by (simp add: json_getProducts_def mset_Array_sort Let_def)
qed

text \<open>
  C5. A listing with a non-empty search string \<open>S\<close> should hold a product exactly when
  \<open>S\<close> occurs, without regard to case, in its name or its description. The offline and
  the JSON-file listings do (lemmas above). The Express condition does not: the search
  string is pasted into the LIKE pattern with its wildcards alive, so the search for an
  underscore selects the hammer, in whose name and description no underscore occurs and
  which the offline filter leaves out.
\<close>

theorem express_search_reads_wildcards:
  "express_search_condition ''_'' (new_product hammer 1 100)
   \<and> \<not> product_mentions ''_'' (new_product hammer 1 100)
   \<and> \<not> matches_search (toLowerCase ''_'') (new_product hammer 1 100)"
proof -
  have a: "express_search_condition ''_'' (new_product hammer 1 100)"
    by code_simp
  have b: "\<not> matches_search (toLowerCase ''_'') (new_product hammer 1 100)"
    by code_simp
  from a b show ?thesis
    using matches_search_iff [of "''_''" "new_product hammer 1 100"] by blast
qed

section \<open>Uniqueness of product ids\<close>

lemma p_id_new_product: "p_id (new_product d n now) = n"
  by (simp add: new_product_def)

lemma live_products_setItem: "live_products (w\<lparr>setItem_throws := b\<rparr>) = live_products w"
  by (simp add: live_products_def)

lemma create_assigns_next_id:
  "r_id (fst (offlineApi_createProduct d now w)) =
     Some (js_add (Math_max0 (map p_id (live_products w))) 1)"
  by (simp add: offlineApi_createProduct_def live_products_def ok_def Let_def)

lemma live_after_create:
  "live_products (snd (offlineApi_createProduct d now w)) = live_products w
   \<or> live_products (snd (offlineApi_createProduct d now w)) =
       live_products w @ [new_product d (js_add (Math_max0 (map p_id (live_products w))) 1) now]"
  by (cases "ls_products w")
     (simp_all add: offlineApi_createProduct_def live_products_def getStoredData_def
       setStoredData_products_def Let_def)

lemma create_keeps_distinct:
  assumes "distinct (map p_id (live_products w))"
    and "Math_max0 (map p_id (live_products w)) < 2 ^ 53"
  shows "distinct (map p_id (live_products (snd (offlineApi_createProduct d now w))))"
  using live_after_create [of d now w] assms(1) next_id_fresh [OF assms(2)]
  by (auto simp: p_id_new_product)

lemma create_raises_max:
  assumes "Math_max0 (map p_id (live_products w)) < 2 ^ 53"
  shows "Math_max0 (map p_id (live_products (snd (offlineApi_createProduct d now w)))) \<le>
           Math_max0 (map p_id (live_products w)) + 1"
  using live_after_create [of d now w] next_id_exact [OF assms]
  by (auto simp: Math_max0_snoc p_id_new_product)

lemma live_after_delete:
  "live_products (snd (offlineApi_deleteProduct i w)) = live_products w
   \<or> live_products (snd (offlineApi_deleteProduct i w)) =
       filter (\<lambda>p. p_id p \<noteq> i) (live_products w)"
  by (cases "ls_products w")
     (simp_all add: offlineApi_deleteProduct_def live_products_def getStoredData_def
       setStoredData_products_def Let_def)

lemma delete_keeps_distinct:
  assumes "distinct (map p_id (live_products w))"
  shows "distinct (map p_id (live_products (snd (offlineApi_deleteProduct i w))))"
  using live_after_delete [of i w] assms by (auto simp: distinct_map_filter)

lemma delete_lowers_max:
  "Math_max0 (map p_id (live_products (snd (offlineApi_deleteProduct i w)))) \<le>
     Math_max0 (map p_id (live_products w))"
  using live_after_delete [of i w] by (auto intro!: Math_max0_mono)

lemma creates_nonneg: "0 \<le> creates ops"
  by (induction ops rule: creates.induct) simp_all

lemma run_ops_keeps_distinct:
  "distinct (map p_id (live_products w)) \<Longrightarrow>
   Math_max0 (map p_id (live_products w)) + creates ops \<le> 2 ^ 53 \<Longrightarrow>
   distinct (map p_id (live_products (run_ops ops w)))"
  unfolding run_ops_def
proof (induction ops arbitrary: w rule: creates.induct)
  case 1
  then show ?case by simp
next
  case (2 d now b ops)
  let ?v = "w\<lparr>setItem_throws := b\<rparr>"
  let ?w' = "snd (offlineApi_createProduct d now ?v)"
  have room: "Math_max0 (map p_id (live_products ?v)) < 2 ^ 53"
    using "2.prems"(2) creates_nonneg [of ops] by (simp add: live_products_setItem)
  have "distinct (map p_id (live_products ?v))"
    using "2.prems"(1) by (simp add: live_products_setItem)
  then have d: "distinct (map p_id (live_products ?w'))"
    using room by (rule create_keeps_distinct)
  have "Math_max0 (map p_id (live_products ?w')) + creates ops \<le> 2 ^ 53"
    using create_raises_max [OF room, of d now] "2.prems"(2)
    by (simp add: live_products_setItem)
  with d have "distinct (map p_id (live_products (fold apply_op ops ?w')))"
    by (rule "2.IH")
  then show ?case by simp
next
  case (3 i b ops)
  let ?v = "w\<lparr>setItem_throws := b\<rparr>"
  let ?w' = "snd (offlineApi_deleteProduct i ?v)"
  have "distinct (map p_id (live_products ?v))"
    using "3.prems"(1) by (simp add: live_products_setItem)
  then have d: "distinct (map p_id (live_products ?w'))"
    by (rule delete_keeps_distinct)
  have "Math_max0 (map p_id (live_products ?w')) + creates ops \<le> 2 ^ 53"
    using delete_lowers_max [of i ?v] "3.prems"(2) by (simp add: live_products_setItem)
  with d have "distinct (map p_id (live_products (fold apply_op ops ?w')))"
    by (rule "3.IH")
  then show ?case by simp
qed

lemma sample_product_ids: "map p_id (sample_products now) = [1, 2, 3, 4, 5, 6, 7, 8, 9, 10, 11, 12]"
  by (simp add: sample_products_def sample_product_def)

lemma default_product_ids: "map j_id (default_products now) = [1, 2, 3, 4, 5, 6, 7]"
  by (simp add: default_products_def default_product_def)

lemma json_live_cases:
  "json_live (json_initializeData now fs) =
     (if PRODUCTS_FILE fs = Missing then default_products now else json_live fs)"
  by (cases "PRODUCTS_FILE fs") (simp_all add: json_initializeData_def json_live_def Let_def)

lemma init_keeps_distinct:
  "distinct (map j_id (json_live fs)) \<Longrightarrow>
   distinct (map j_id (json_live (json_initializeData now fs)))"
  by (simp add: json_live_cases default_product_ids)

lemma init_max:
  "Math_max0 (map j_id (json_live (json_initializeData now fs))) \<le>
     max 7 (Math_max0 (map j_id (json_live fs)))"
  by (simp add: json_live_cases default_product_ids Math_max0_def)

lemma read_json_live:
  "read_json (PRODUCTS_FILE fs) = Some ps \<Longrightarrow> json_live fs = ps"
  by (cases "PRODUCTS_FILE fs") (simp_all add: read_json_def json_live_def)

lemma post_assigns_next_id:
  assumes "read_json (PRODUCTS_FILE (json_initializeData now fs)) = Some ps"
  shows "fst (handler message now (POST_products (Some d)) fs) =
           ok_200 (ok\<lparr>r_id := Some (js_add (Math_max0 (map j_id ps)) 1)\<rparr>)"
    and "json_live (snd (handler message now (POST_products (Some d)) fs)) =
           ps @ [post_product d (js_add (Math_max0 (map j_id ps)) 1) now]"
  using assms
  by (simp_all add: handler_def Let_def saveProducts_def json_live_def)

lemma post_step:
  assumes "distinct (map j_id (json_live fs))"
    and "max 7 (Math_max0 (map j_id (json_live fs))) < 2 ^ 53"
  shows "distinct (map j_id (json_live (snd (handler message now (POST_products (Some d)) fs))))"
    and "max 7 (Math_max0 (map j_id
           (json_live (snd (handler message now (POST_products (Some d)) fs))))) \<le>
         max 7 (Math_max0 (map j_id (json_live fs))) + 1"
proof -
  let ?fs = "json_initializeData now fs"
  let ?out = "snd (handler message now (POST_products (Some d)) fs)"
  have dist: "distinct (map j_id (json_live ?fs))"
    using assms(1) by (rule init_keeps_distinct)
  have bound: "Math_max0 (map j_id (json_live ?fs)) \<le> max 7 (Math_max0 (map j_id (json_live fs)))"
    by (rule init_max)
  have "distinct (map j_id (json_live ?out)) \<and>
      max 7 (Math_max0 (map j_id (json_live ?out))) \<le>
        max 7 (Math_max0 (map j_id (json_live fs))) + 1"
  proof (cases "read_json (PRODUCTS_FILE ?fs)")
    case None
    then have "?out = ?fs"
      by (simp add: handler_def Let_def)
    with dist bound show ?thesis by simp
  next
    case (Some ps)
    have ps: "json_live ?fs = ps"
      using Some by (rule read_json_live)
    have room: "Math_max0 (map j_id ps) < 2 ^ 53"
      using bound assms(2) by (simp add: ps)
    have "json_live ?out = ps @ [post_product d (js_add (Math_max0 (map j_id ps)) 1) now]"
      using Some by (rule post_assigns_next_id(2))
    then show ?thesis
      using dist bound next_id_fresh [OF room] next_id_exact [OF room]
      by (simp add: ps post_product_def Math_max0_snoc)
  qed
  then show "distinct (map j_id (json_live ?out))"
    and "max 7 (Math_max0 (map j_id (json_live ?out))) \<le>
         max 7 (Math_max0 (map j_id (json_live fs))) + 1"
    by simp_all
qed

lemma remove_step:
  assumes "distinct (map j_id (json_live fs))"
  shows "distinct (map j_id (json_live (snd (handler message now (DELETE_products q) fs))))"
    and "max 7 (Math_max0 (map j_id
           (json_live (snd (handler message now (DELETE_products q) fs))))) \<le>
         max 7 (Math_max0 (map j_id (json_live fs)))"
proof -
  let ?fs = "json_initializeData now fs"
  let ?out = "snd (handler message now (DELETE_products q) fs)"
  have dist: "distinct (map j_id (json_live ?fs))"
    using assms by (rule init_keeps_distinct)
  have bound: "Math_max0 (map j_id (json_live ?fs)) \<le> max 7 (Math_max0 (map j_id (json_live fs)))"
    by (rule init_max)
  have "distinct (map j_id (json_live ?out)) \<and>
      Math_max0 (map j_id (json_live ?out)) \<le> Math_max0 (map j_id (json_live ?fs))"
  proof (cases "read_json (PRODUCTS_FILE ?fs)")
    case None
    then have "?out = ?fs"
      by (simp add: handler_def Let_def)
    with dist show ?thesis by simp
  next
    case (Some ps)
    have ps: "json_live ?fs = ps"
      using Some by (rule read_json_live)
    obtain keep where out: "json_live ?out = filter keep ps"
      using Some by (simp add: handler_def Let_def saveProducts_def json_live_def)
    have "Math_max0 (map j_id (filter keep ps)) \<le> Math_max0 (map j_id ps)"
      by (rule Math_max0_mono) auto
    with dist show ?thesis
      by (simp add: out ps distinct_map_filter)
  qed
  with bound show "distinct (map j_id (json_live ?out))"
    and "max 7 (Math_max0 (map j_id (json_live ?out))) \<le>
         max 7 (Math_max0 (map j_id (json_live fs)))"
    by simp_all
qed

lemma json_creates_nonneg: "0 \<le> json_creates ops"
  by (induction ops rule: json_creates.induct) simp_all

lemma run_json_ops_keeps_distinct:
  "distinct (map j_id (json_live fs)) \<Longrightarrow>
   max 7 (Math_max0 (map j_id (json_live fs))) + json_creates ops \<le> 2 ^ 53 \<Longrightarrow>
   distinct (map j_id (json_live (run_json_ops message ops fs)))"
  unfolding run_json_ops_def
proof (induction ops arbitrary: fs rule: json_creates.induct)
  case 1
  then show ?case by simp
next
  case (2 d now ops)
  let ?out = "snd (handler message now (POST_products (Some d)) fs)"
  have room: "max 7 (Math_max0 (map j_id (json_live fs))) < 2 ^ 53"
    using "2.prems"(2) json_creates_nonneg [of ops] by simp
  have d: "distinct (map j_id (json_live ?out))"
    using "2.prems"(1) room by (rule post_step(1))
  have "max 7 (Math_max0 (map j_id (json_live ?out))) + json_creates ops \<le> 2 ^ 53"
    using post_step(2) [OF "2.prems"(1) room, of message now d] "2.prems"(2)
    unfolding json_creates.simps by linarith
  with d have "distinct (map j_id (json_live (fold (apply_json_op message) ops ?out)))"
    by (rule "2.IH")
  then show ?case by simp
next
  case (3 i now ops)
  let ?out = "snd (handler message now (DELETE_products (Some i)) fs)"
  have d: "distinct (map j_id (json_live ?out))"
    using "3.prems"(1) by (rule remove_step(1))
  have "max 7 (Math_max0 (map j_id (json_live ?out))) + json_creates ops \<le> 2 ^ 53"
    using remove_step(2) [OF "3.prems"(1), of message now "Some i"] "3.prems"(2) by simp
  with d have "distinct (map j_id (json_live (fold (apply_json_op message) ops ?out)))"
    by (rule "3.IH")
  then show ?case by simp
qed

text \<open>
  C6, as stated: over every sequence of create and delete operations no two live products
  share an id, and the id a create assigns never equals an id present in the store. Ids are
  JavaScript numbers: on a store whose product has the id \<open>2 ^ 53\<close>, the sum
  \<^verbatim>\<open>Math.max(...ids, 0) + 1\<close> rounds back to \<open>2 ^ 53\<close>, so createProduct answers with the
  id that is present and the store then holds two products with it.
\<close>

theorem ids_collide_at_2_53:
  "map p_id (live_products big_shop) = [9007199254740992]
   \<and> r_id (fst (offlineApi_createProduct drill 300 big_shop)) = Some 9007199254740992
   \<and> map p_id (live_products (run_ops [Create drill 300 False] big_shop)) =
       [9007199254740992, 9007199254740992]
   \<and> \<not> distinct (map p_id (live_products (run_ops [Create drill 300 False] big_shop)))"
  by (simp add: run_ops_def offlineApi_createProduct_def live_products_def big_shop_def
      module_loaded_def getStoredData_def setStoredData_products_def new_product_def ok_def
      Math_max0_def js_add_def to_double_def ulp_small ulp_large Let_def)

text \<open>
  C6, amended: as long as the ids stay within \<open>2 ^ 53\<close>, where adding one is exact,
  no two live products share an id. Precisely: on a store whose live products have
  distinct ids, every sequence of create and delete operations for which the largest id
  plus the number of creates is at most \<open>2 ^ 53\<close> leaves the live products with distinct
  ids; the id a create assigns is \<^verbatim>\<open>Math.max(...ids, 0) + 1\<close>, and when the largest id is
  below \<open>2 ^ 53\<close> it is the exact successor and the id of no product present. This holds
  for the offline backend (with writes to local storage failing or not, operation by
  operation) and for the JSON-file handler (whose seed reaches id 7), and in particular
  from the stores as they are first initialised on an empty medium.
\<close>

theorem product_ids_stay_unique:
  "(distinct (map p_id (live_products w))
      \<and> Math_max0 (map p_id (live_products w)) + creates ops \<le> 2 ^ 53 \<longrightarrow>
      distinct (map p_id (live_products (run_ops ops w))))
   \<and> r_id (fst (offlineApi_createProduct d now w)) =
       Some (js_add (Math_max0 (map p_id (live_products w))) 1)
   \<and> (Math_max0 (map p_id (live_products w)) < 2 ^ 53 \<longrightarrow>
       js_add (Math_max0 (map p_id (live_products w))) 1 =
         Math_max0 (map p_id (live_products w)) + 1
       \<and> js_add (Math_max0 (map p_id (live_products w))) 1
           \<notin> set (map p_id (live_products w)))
   \<and> (distinct (map j_id (json_live fs))
      \<and> max 7 (Math_max0 (map j_id (json_live fs))) + json_creates jops \<le> 2 ^ 53 \<longrightarrow>
      distinct (map j_id (json_live (run_json_ops message jops fs))))
   \<and> (read_json (PRODUCTS_FILE (json_initializeData now fs)) = Some ps \<longrightarrow>
        fst (handler message now (POST_products (Some d)) fs) =
          ok_200 (ok\<lparr>r_id := Some (js_add (Math_max0 (map j_id ps)) 1)\<rparr>))
   \<and> (Math_max0 (map j_id ps) < 2 ^ 53 \<longrightarrow>
        js_add (Math_max0 (map j_id ps)) 1 = Math_max0 (map j_id ps) + 1
        \<and> js_add (Math_max0 (map j_id ps)) 1 \<notin> set (map j_id ps))
   \<and> (12 + creates ops \<le> 2 ^ 53 \<longrightarrow>
        distinct (map p_id (live_products
          (run_ops ops (initializeData (module_loaded now NoItem NoItem throws))))))
   \<and> (7 + json_creates jops \<le> 2 ^ 53 \<longrightarrow>
        distinct (map j_id (json_live
          (run_json_ops message jops
             \<lparr>PRODUCTS_FILE = Missing, CATEGORIES_FILE = Missing\<rparr>))))"
proof (intro conjI impI)
  show "distinct (map p_id (live_products (run_ops ops w)))"
    if "distinct (map p_id (live_products w))
        \<and> Math_max0 (map p_id (live_products w)) + creates ops \<le> 2 ^ 53"
    using that by (intro run_ops_keeps_distinct) simp_all
  show "r_id (fst (offlineApi_createProduct d now w)) =
      Some (js_add (Math_max0 (map p_id (live_products w))) 1)"
    by (rule create_assigns_next_id)
  show "js_add (Math_max0 (map p_id (live_products w))) 1 =
      Math_max0 (map p_id (live_products w)) + 1"
    if "Math_max0 (map p_id (live_products w)) < 2 ^ 53"
    using that by (rule next_id_exact)
  show "js_add (Math_max0 (map p_id (live_products w))) 1 \<notin> set (map p_id (live_products w))"
    if "Math_max0 (map p_id (live_products w)) < 2 ^ 53"
    using that by (rule next_id_fresh)
  show "distinct (map j_id (json_live (run_json_ops message jops fs)))"
    if "distinct (map j_id (json_live fs))
        \<and> max 7 (Math_max0 (map j_id (json_live fs))) + json_creates jops \<le> 2 ^ 53"
    using that by (intro run_json_ops_keeps_distinct) simp_all
  show "fst (handler message now (POST_products (Some d)) fs) =
      ok_200 (ok\<lparr>r_id := Some (js_add (Math_max0 (map j_id ps)) 1)\<rparr>)"
    if "read_json (PRODUCTS_FILE (json_initializeData now fs)) = Some ps"
    using that by (rule post_assigns_next_id(1))
  show "js_add (Math_max0 (map j_id ps)) 1 = Math_max0 (map j_id ps) + 1"
    if "Math_max0 (map j_id ps) < 2 ^ 53"
    using that by (rule next_id_exact)
  show "js_add (Math_max0 (map j_id ps)) 1 \<notin> set (map j_id ps)"
    if "Math_max0 (map j_id ps) < 2 ^ 53"
    using that by (rule next_id_fresh)
  show "distinct (map p_id (live_products
      (run_ops ops (initializeData (module_loaded now NoItem NoItem throws)))))"
    if "12 + creates ops \<le> 2 ^ 53"
  proof -
    have live: "live_products (initializeData (module_loaded now NoItem NoItem throws)) =
        sample_products now"
      by (cases throws)
         (simp_all add: initializeData_def module_loaded_def live_products_def
           getStoredData_def setStoredData_products_def setStoredData_categories_def Let_def)
    show ?thesis
      using that
      by (intro run_ops_keeps_distinct) (simp_all add: live sample_product_ids Math_max0_def)
  qed
  show "distinct (map j_id (json_live
      (run_json_ops message jops \<lparr>PRODUCTS_FILE = Missing, CATEGORIES_FILE = Missing\<rparr>)))"
    if "7 + json_creates jops \<le> 2 ^ 53"
    using that
    by (intro run_json_ops_keeps_distinct) (simp_all add: json_live_def Math_max0_def)
qed

theorem product_ids_stay_unique_witness:
  "distinct (map p_id (live_products shop))
   \<and> Math_max0 (map p_id (live_products shop))
       + creates [Create drill 300 True, Delete 2 False, Create hammer 400 False] \<le> 2 ^ 53
   \<and> map p_id (live_products
        (run_ops [Create drill 300 True, Delete 2 False, Create hammer 400 False] shop)) = [1, 2]
   \<and> distinct (map p_id (live_products
        (run_ops [Create drill 300 True, Delete 2 False, Create hammer 400 False] shop)))
   \<and> r_id (fst (offlineApi_createProduct drill 300 shop)) = Some 3
   \<and> (3::int) \<notin> set (map p_id (live_products shop))
   \<and> distinct (map j_id (json_live seeded_files))
   \<and> distinct (map j_id (json_live
        (run_json_ops ''boom'' [Post drill 300, Remove ''8'' 400, Post hammer 500] seeded_files)))
   \<and> fst (handler ''boom'' 300 (POST_products (Some drill)) seeded_files) =
        ok_200 (ok\<lparr>r_id := Some 8\<rparr>)
   \<and> (8::int) \<notin> set (map j_id (default_products 100))
   \<and> distinct (map p_id (live_products
        (run_ops [Create drill 300 True, Delete 2 False, Create hammer 400 False]
           (initializeData (module_loaded 300 NoItem NoItem False)))))
   \<and> distinct (map j_id (json_live
        (run_json_ops ''boom'' [Post drill 300, Remove ''8'' 400, Post hammer 500]
           \<lparr>PRODUCTS_FILE = Missing, CATEGORIES_FILE = Missing\<rparr>)))"
proof -
  let ?ops = "[Create drill 300 True, Delete 2 False, Create hammer 400 False]"
  let ?jops = "[Post drill 300, Remove ''8'' 400, Post hammer 500]"
  note inst = product_ids_stay_unique [of shop ?ops drill 300 seeded_files ?jops "''boom''"
      "default_products 100" False]
  have live: "map p_id (live_products shop) = [1, 2]"
    by (simp add: live_products_def shop_def module_loaded_def getStoredData_def
        new_product_def)
  have jlive: "json_live seeded_files = default_products 100"
    by (simp add: json_live_def seeded_files_def)
  have rd: "read_json (PRODUCTS_FILE (json_initializeData 300 seeded_files)) =
      Some (default_products 100)"
    by (simp add: json_initializeData_def seeded_files_def read_json_def Let_def)
  have run: "map p_id (live_products (run_ops ?ops shop)) = [1, 2]"
    by (simp add: run_ops_def offlineApi_createProduct_def offlineApi_deleteProduct_def
        live_products_def shop_def module_loaded_def getStoredData_def
        setStoredData_products_def new_product_def Math_max0_def js_add_small Let_def)
  have next3: "js_add 2 1 = 3" and next8: "js_add 7 1 = 8"
    by (simp_all add: js_add_small)
  show ?thesis
    using inst
    by (simp add: live jlive rd default_product_ids run Math_max0_def next3 next8)
qed

section \<open>Seeding\<close>

lemma initializeData_idem: "initializeData (initializeData w) = initializeData w"
  by (cases "ls_categories w"; cases "ls_products w"; cases "setItem_throws w")
     (simp_all add: initializeData_def getStoredData_def setStoredData_products_def
       setStoredData_categories_def Let_def)

lemma initializeData_seeds:
  assumes "getStoredData (ls_categories w) [] = []" and "getStoredData (ls_products w) [] = []"
    and "\<not> setItem_throws w"
  shows "initializeData w =
           w\<lparr>ls_products := Parsed (SAMPLE_PRODUCTS w), ls_categories := Parsed (SAMPLE_CATEGORIES w)\<rparr>"
  using assms
  by (simp add: initializeData_def setStoredData_products_def setStoredData_categories_def Let_def)

lemma initializeData_seeded:
  assumes "getStoredData (ls_categories w) [] \<noteq> []" and "getStoredData (ls_products w) [] \<noteq> []"
  shows "initializeData w = w"
  using assms by (simp add: initializeData_def Let_def)

lemma json_initializeData_idem:
  "json_initializeData t2 (json_initializeData t1 fs) = json_initializeData t1 fs"
  by (simp add: json_initializeData_def Let_def)

text \<open>
  C7. Initialising twice is initialising once. On a medium that holds neither collection
  two runs leave exactly the default categories and the default products, one copy of each:
  stored, when the medium accepts writes, and in any case as what the store reads back. On a
  medium that holds both collections initialisation changes nothing. This holds for the
  offline module and for the JSON-file handler.
\<close>

theorem initialization_is_idempotent:
  "initializeData (initializeData w) = initializeData w
   \<and> (getStoredData (ls_categories w) [] = [] \<and> getStoredData (ls_products w) [] = []
        \<and> \<not> setItem_throws w \<longrightarrow>
      initializeData (initializeData w) =
        w\<lparr>ls_products := Parsed (SAMPLE_PRODUCTS w),
          ls_categories := Parsed (SAMPLE_CATEGORIES w)\<rparr>)
   \<and> (ls_categories w = NoItem \<and> ls_products w = NoItem \<longrightarrow>
      cr_categories (offlineApi_getCategories (initializeData (initializeData w))) =
        SAMPLE_CATEGORIES w
      \<and> live_products (initializeData (initializeData w)) = SAMPLE_PRODUCTS w)
   \<and> (getStoredData (ls_categories w) [] \<noteq> [] \<and> getStoredData (ls_products w) [] \<noteq> []
        \<longrightarrow> initializeData w = w)
   \<and> json_initializeData t2 (json_initializeData t1 fs) = json_initializeData t1 fs
   \<and> (CATEGORIES_FILE fs = Missing \<and> PRODUCTS_FILE fs = Missing \<longrightarrow>
      json_initializeData t2 (json_initializeData t1 fs) =
        \<lparr>PRODUCTS_FILE = Content (default_products t1),
         CATEGORIES_FILE = Content (default_categories t1)\<rparr>)
   \<and> (CATEGORIES_FILE fs \<noteq> Missing \<and> PRODUCTS_FILE fs \<noteq> Missing \<longrightarrow>
      json_initializeData t1 fs = fs)"
proof (intro conjI impI)
  show "initializeData (initializeData w) = initializeData w"
    by (rule initializeData_idem)
  show "initializeData (initializeData w) =
      w\<lparr>ls_products := Parsed (SAMPLE_PRODUCTS w), ls_categories := Parsed (SAMPLE_CATEGORIES w)\<rparr>"
    if "getStoredData (ls_categories w) [] = [] \<and> getStoredData (ls_products w) [] = []
        \<and> \<not> setItem_throws w"
  proof -
    have "initializeData (initializeData w) = initializeData w"
      by (rule initializeData_idem)
    also from that have "\<dots> =
        w\<lparr>ls_products := Parsed (SAMPLE_PRODUCTS w), ls_categories := Parsed (SAMPLE_CATEGORIES w)\<rparr>"
      by (intro initializeData_seeds) simp_all
    finally show ?thesis .
  qed
  show "cr_categories (offlineApi_getCategories (initializeData (initializeData w))) =
      SAMPLE_CATEGORIES w"
    if "ls_categories w = NoItem \<and> ls_products w = NoItem"
    using that
    by (cases "setItem_throws w")
       (simp_all add: initializeData_idem initializeData_def offlineApi_getCategories_def
         getStoredData_def setStoredData_products_def setStoredData_categories_def Let_def)
  show "live_products (initializeData (initializeData w)) = SAMPLE_PRODUCTS w"
    if "ls_categories w = NoItem \<and> ls_products w = NoItem"
    using that
    by (cases "setItem_throws w")
       (simp_all add: initializeData_idem initializeData_def live_products_def
         getStoredData_def setStoredData_products_def setStoredData_categories_def Let_def)
  show "initializeData w = w"
    if "getStoredData (ls_categories w) [] \<noteq> [] \<and> getStoredData (ls_products w) [] \<noteq> []"
    using that initializeData_seeded [of w] by simp
  show "json_initializeData t2 (json_initializeData t1 fs) = json_initializeData t1 fs"
    by (rule json_initializeData_idem)
  show "json_initializeData t2 (json_initializeData t1 fs) =
      \<lparr>PRODUCTS_FILE = Content (default_products t1),
       CATEGORIES_FILE = Content (default_categories t1)\<rparr>"
    if "CATEGORIES_FILE fs = Missing \<and> PRODUCTS_FILE fs = Missing"
    using that by (simp add: json_initializeData_def Let_def)
  show "json_initializeData t1 fs = fs"
    if "CATEGORIES_FILE fs \<noteq> Missing \<and> PRODUCTS_FILE fs \<noteq> Missing"
    using that by (simp add: json_initializeData_def Let_def)
qed

theorem initialization_is_idempotent_witness:
  "initializeData (initializeData (module_loaded 50 NoItem NoItem False)) =
     module_loaded 50 (Parsed (sample_products 50)) (Parsed (sample_categories 50)) False
   \<and> initializeData shop = shop
   \<and> json_initializeData 200
        (json_initializeData 100 \<lparr>PRODUCTS_FILE = Missing, CATEGORIES_FILE = Missing\<rparr>) =
      seeded_files
   \<and> json_initializeData 200 seeded_files = seeded_files
   \<and> live_products (initializeData (initializeData unavailable_storage)) = sample_products 50"
proof -
  let ?w = "module_loaded 50 NoItem NoItem False"
  let ?fs = "\<lparr>PRODUCTS_FILE = Missing, CATEGORIES_FILE = Missing\<rparr>"
  note empty = initialization_is_idempotent [of ?w 200 100 ?fs]
  note seeded = initialization_is_idempotent [of shop 200 200 seeded_files]
  have 1: "initializeData (initializeData ?w) =
      module_loaded 50 (Parsed (sample_products 50)) (Parsed (sample_categories 50)) False"
    using empty [THEN conjunct2, THEN conjunct1]
    by (simp add: module_loaded_def getStoredData_def)
  have 2: "initializeData shop = shop"
    using seeded [THEN conjunct2, THEN conjunct2, THEN conjunct2, THEN conjunct1]
    by (simp add: shop_def module_loaded_def getStoredData_def)
  have 3: "json_initializeData 200 (json_initializeData 100 ?fs) = seeded_files"
    using empty [THEN conjunct2, THEN conjunct2, THEN conjunct2, THEN conjunct2,
        THEN conjunct2, THEN conjunct1]
    by (simp add: seeded_files_def)
  have 4: "json_initializeData 200 seeded_files = seeded_files"
    using seeded [THEN conjunct2, THEN conjunct2, THEN conjunct2, THEN conjunct2,
        THEN conjunct2, THEN conjunct2]
    by (simp add: seeded_files_def)
  have 5: "live_products (initializeData (initializeData unavailable_storage)) =
      sample_products 50"
    using initialization_is_idempotent [of unavailable_storage 200 100 ?fs,
        THEN conjunct2, THEN conjunct2, THEN conjunct1]
    by (simp add: unavailable_storage_def module_loaded_def)
  from 1 2 3 4 5 show ?thesis by blast
qed

section \<open>Pagination on the offline fall-back path\<close>

text \<open>
  C8. When the fetch of a product listing throws, the facade answers with the offline
  listing and with pagination metadata for one page holding all of it: currentPage is the
  requested page, totalPages is 1, totalItems is the number of products returned,
  itemsPerPage is the requested limit, and there is neither a next nor a previous page.
\<close>

theorem offline_fallback_pagination:
  "api_getProducts FetchThrows search category page limit sortBy sortOrder w =
     Fulfilled
       \<lparr>pr_success = pr_success (offlineApi_getProducts search category w),
        pr_products = pr_products (offlineApi_getProducts search category w),
        pr_pagination = Some
          \<lparr>currentPage = page,
           totalPages = 1,
           totalItems = int (length (pr_products (offlineApi_getProducts search category w))),
           itemsPerPage = limit,
           hasNextPage = False,
           hasPrevPage = False\<rparr>\<rparr>"
  by (simp add: api_getProducts_def Let_def)

section \<open>Unreadable stored content\<close>

lemma getStoredData_unparsable: "getStoredData Unparsable defaultValue = defaultValue"
  by (simp add: getStoredData_def)

lemma garbled_file_stays:
  "CATEGORIES_FILE fs = Garbled \<Longrightarrow> CATEGORIES_FILE (json_initializeData now fs) = Garbled"
  "PRODUCTS_FILE fs = Garbled \<Longrightarrow> PRODUCTS_FILE (json_initializeData now fs) = Garbled"
  by (simp_all add: json_initializeData_def Let_def)

lemma garbled_categories_file_answers_500:
  assumes "CATEGORIES_FILE fs = Garbled"
  shows "handler message now GET_categories fs = (error_500 message, json_initializeData now fs)"
  using garbled_file_stays(1) [OF assms]
  by (simp add: handler_def json_getCategories_def read_json_def Let_def)

text \<open>
  C9: in the local-storage and the JSON-file variant every read falls back to the default
  seed and answers normally when the stored content is not valid serialised data. The
  local-storage variant does: its \<^verbatim>\<open>getStoredData\<close> catches the error of
  \<^verbatim>\<open>JSON.parse\<close> and returns the default, so on a store whose two entries are unreadable
  getCategories and getProducts answer with success, the five sample categories and the
  twelve sample products. The JSON-file handler does not: its \<^verbatim>\<open>getCategories\<close> and
  \<^verbatim>\<open>getProducts\<close> parse the file with no guard of their own, \<^verbatim>\<open>initializeData\<close> reseeds
  only a file that cannot be accessed, and the error reaches the handler's \<^verbatim>\<open>catch\<close>.
  With a categories file that is not JSON, the requests for the categories and for the
  products are answered with status 500 and \<^verbatim>\<open>{success: false, error}\<close> instead of the
  seed, and the file stays as it is.
\<close>

theorem damaged_json_file_answers_500:
  "handler ''Unexpected token'' 300 GET_categories damaged_files =
     (\<lparr>statusCode = 500,
       res_body = Reply_body
         \<lparr>r_success = False, r_id = None, r_error = Some ''Unexpected token'',
          r_imageUrl = None, r_product = None\<rparr>\<rparr>,
      damaged_files)
   \<and> handler ''Unexpected token'' 300 (GET_products None None) damaged_files =
     (\<lparr>statusCode = 500,
       res_body = Reply_body
         \<lparr>r_success = False, r_id = None, r_error = Some ''Unexpected token'',
          r_imageUrl = None, r_product = None\<rparr>\<rparr>,
      damaged_files)
   \<and> fst (handler ''Unexpected token'' 300 GET_categories damaged_files) \<noteq>
       \<lparr>statusCode = 200,
        res_body = Categories_body
          \<lparr>cr_success = True, cr_categories = default_categories 300\<rparr>\<rparr>
   \<and> offlineApi_getCategories unreadable_storage =
       \<lparr>cr_success = True, cr_categories = sample_categories 50\<rparr>
   \<and> pr_success (offlineApi_getProducts [] ''all'' unreadable_storage)
   \<and> map p_id (pr_products (offlineApi_getProducts [] ''all'' unreadable_storage)) =
       [1, 2, 3, 4, 5, 6, 7, 8, 9, 10, 11, 12]"
  by (simp add: handler_def json_initializeData_def damaged_files_def json_getCategories_def
      json_getProducts_def read_json_def error_500_def failure_def
      offlineApi_getCategories_def offlineApi_getProducts_def unreadable_storage_def
      module_loaded_def getStoredData_def sample_products_def sample_product_def
      Array_sort_def by_created_desc_def Let_def)

section \<open>Writes that local storage refuses\<close>

text \<open>
  C10, as stated: when the write to local storage throws, createProduct, updateProduct and
  deleteProduct still answer with success, the stored state is unchanged, and a later read
  does not observe the mutation. The last part fails in a browser whose storage holds
  nothing and refuses every write: createProduct answers with success and id 13, storage
  still holds nothing, yet the listing read afterwards shows product 13, because the
  product was appended to the module's own SAMPLE_PRODUCTS array, which every read falls
  back to.
\<close>

theorem swallowed_write_still_observed:
  "setItem_throws unavailable_storage
   \<and> fst (offlineApi_createProduct drill 200 unavailable_storage) =
       \<lparr>r_success = True, r_id = Some 13, r_error = None, r_imageUrl = None, r_product = None\<rparr>
   \<and> ls_products (snd (offlineApi_createProduct drill 200 unavailable_storage)) = NoItem
   \<and> map p_id (pr_products (offlineApi_getProducts [] ''all'' unavailable_storage)) =
       [1, 2, 3, 4, 5, 6, 7, 8, 9, 10, 11, 12]
   \<and> map p_id (pr_products (offlineApi_getProducts [] ''all''
        (snd (offlineApi_createProduct drill 200 unavailable_storage)))) =
       [13, 1, 2, 3, 4, 5, 6, 7, 8, 9, 10, 11, 12]"
  by (simp add: offlineApi_createProduct_def offlineApi_getProducts_def unavailable_storage_def
      module_loaded_def sample_products_def sample_product_def getStoredData_def
      setStoredData_products_def Math_max0_def js_add_small new_product_def ok_def
      Array_sort_def by_created_desc_def Let_def)

text \<open>
  C10, amended: when the write to local storage throws, the error is swallowed in
  setStoredData: createProduct still answers with success and the new id, and the stored
  entry is left as it was by createProduct, updateProduct and deleteProduct alike. When
  the products entry holds a readable collection, the whole state of the module is left as
  it was, so no later read observes the mutation, and updateProduct and deleteProduct of
  an id in the collection answer with success.
\<close>

theorem swallowed_write_keeps_stored_state:
  "(setItem_throws w \<longrightarrow>
      fst (offlineApi_createProduct d now w) =
        ok\<lparr>r_id := Some (js_add (Math_max0 (map p_id (live_products w))) 1)\<rparr>
      \<and> ls_products (snd (offlineApi_createProduct d now w)) = ls_products w
      \<and> ls_products (snd (offlineApi_updateProduct u now w)) = ls_products w
      \<and> ls_products (snd (offlineApi_deleteProduct i w)) = ls_products w)
   \<and> (setItem_throws w \<and> ls_products w = Parsed xs \<longrightarrow>
      snd (offlineApi_createProduct d now w) = w
      \<and> (d_id u \<in> set (map p_id xs) \<longrightarrow> offlineApi_updateProduct u now w = (ok, w))
      \<and> (i \<in> set (map p_id xs) \<longrightarrow> offlineApi_deleteProduct i w = (ok, w)))"
proof (intro conjI impI)
  assume t: "setItem_throws w"
  show "fst (offlineApi_createProduct d now w) =
      ok\<lparr>r_id := Some (js_add (Math_max0 (map p_id (live_products w))) 1)\<rparr>"
    by (simp add: offlineApi_createProduct_def live_products_def Let_def)
  show "ls_products (snd (offlineApi_createProduct d now w)) = ls_products w"
    using t
    by (cases "ls_products w")
       (simp_all add: offlineApi_createProduct_def setStoredData_products_def Let_def)
  show "ls_products (snd (offlineApi_updateProduct u now w)) = ls_products w"
    using t
    by (simp add: offlineApi_updateProduct_def setStoredData_products_def Let_def
        split: option.splits)
  show "ls_products (snd (offlineApi_deleteProduct i w)) = ls_products w"
    using t by (simp add: offlineApi_deleteProduct_def setStoredData_products_def Let_def)
next
  assume a: "setItem_throws w \<and> ls_products w = Parsed xs"
  then show "snd (offlineApi_createProduct d now w) = w"
    by (simp add: offlineApi_createProduct_def setStoredData_products_def Let_def)
  show "offlineApi_updateProduct u now w = (ok, w)" if "d_id u \<in> set (map p_id xs)"
  proof -
    from that have "findIndex (\<lambda>p. p_id p = d_id u) xs \<noteq> None"
      by (auto simp: findIndex_None)
    with a show ?thesis
      by (auto simp: offlineApi_updateProduct_def getStoredData_def setStoredData_products_def)
  qed
  show "offlineApi_deleteProduct i w = (ok, w)" if "i \<in> set (map p_id xs)"
  proof -
    from that have "length (filter (\<lambda>p. p_id p \<noteq> i) xs) < length xs"
      by (auto intro!: length_filter_less)
    with a show ?thesis
      by (simp add: offlineApi_deleteProduct_def getStoredData_def setStoredData_products_def
          Let_def)
  qed
qed

theorem swallowed_write_keeps_stored_state_witness:
  "setItem_throws full_shop
   \<and> offlineApi_createProduct drill 300 full_shop = (ok\<lparr>r_id := Some 3\<rparr>, full_shop)
   \<and> offlineApi_updateProduct hammer_update 300 full_shop = (ok, full_shop)
   \<and> offlineApi_deleteProduct 2 full_shop = (ok, full_shop)"
proof -
  let ?w = full_shop
  let ?xs = "[new_product hammer 1 100, new_product drill 2 200]"
  note inst = swallowed_write_keeps_stored_state [of ?w drill 300 hammer_update 2 ?xs]
  have pre: "setItem_throws ?w \<and> ls_products ?w = Parsed ?xs"
    by (simp add: full_shop_def module_loaded_def)
  have ids: "map p_id ?xs = [1, 2]" "d_id hammer_update = 1"
    by (simp_all add: new_product_def hammer_update_def)
  have live: "map p_id (live_products ?w) = [1, 2]"
    by (simp add: live_products_def full_shop_def module_loaded_def getStoredData_def
        new_product_def)
  have 1: "fst (offlineApi_createProduct drill 300 ?w) = ok\<lparr>r_id := Some 3\<rparr>"
    using inst [THEN conjunct1] pre by (simp add: live Math_max0_def js_add_small)
  have 2: "snd (offlineApi_createProduct drill 300 ?w) = ?w"
    using inst [THEN conjunct2] pre by blast
  have 3: "offlineApi_updateProduct hammer_update 300 ?w = (ok, ?w)"
    using inst [THEN conjunct2] pre ids by simp
  have 4: "offlineApi_deleteProduct 2 ?w = (ok, ?w)"
    using inst [THEN conjunct2] pre ids by simp
  from 1 2 have "offlineApi_createProduct drill 300 ?w = (ok\<lparr>r_id := Some 3\<rparr>, ?w)"
    by (simp add: prod_eq_iff)
  with pre 3 4 show ?thesis by blast
qed

end
